theory Spec2Isabelle
  imports Main
begin

section \<open>Python values used by nautilus.py\<close>

text \<open>
  Exceptions are values.  \<open>ApiException\<close> is \<open>kubernetes.client.ApiException\<close> with its
  HTTP status and the text \<open>str(e)\<close> gives; the next three are raised by the interpreter
  itself; \<open>OtherException\<close> stands for every other subclass of \<open>Exception\<close> an external
  call may raise (connection errors, \<open>OSError\<close>, \<open>YAMLError\<close>, \<open>ConfigException\<close>).
  Every constructor carries the text of \<open>str(e)\<close>.  \<open>BaseException\<close>s outside \<open>Exception\<close>
  (keyboard interrupt, interpreter exit) are not modelled.
\<close>

datatype exn =
    ApiException int string
  | AttributeError string
  | KeyError string
  | TypeError string
  | OtherException string

fun is_api_exception :: "exn \<Rightarrow> bool" where
  "is_api_exception (ApiException st txt) = True"
| "is_api_exception e = False"

fun exn_str :: "exn \<Rightarrow> string" where
  "exn_str (ApiException st txt) = txt"
| "exn_str (AttributeError txt) = txt"
| "exn_str (KeyError txt) = txt"
| "exn_str (TypeError txt) = txt"
| "exn_str (OtherException txt) = txt"

definition sq :: string where
  "sq = [CHR 0x27]"

definition tab :: string where
  "tab = [CHR 0x09]"

definition no_attribute :: "string \<Rightarrow> string \<Rightarrow> exn" where
  "no_attribute ty a =
     AttributeError (sq @ ty @ sq @ '' object has no attribute '' @ sq @ a @ sq)"

definition key_error :: "string \<Rightarrow> exn" where
  "key_error k = KeyError (sq @ k @ sq)"

definition not_subscriptable :: "string \<Rightarrow> exn" where
  "not_subscriptable ty = TypeError (sq @ ty @ sq @ '' object is not subscriptable'')"

text \<open>
  \<open>str.lower()\<close> and \<open>str.capitalize()\<close> on the ASCII letters; other characters are left as
  they are.  (No character outside ASCII lowercases to a letter of \<open>deployment\<close>,
  \<open>service\<close> or \<open>pod\<close>, so the dispatch on a lowercased kind is decided by the ASCII
  letters alone.)
\<close>

definition upper_letters :: string where
  "upper_letters = ''ABCDEFGHIJKLMNOPQRSTUVWXYZ''"

definition lower_letters :: string where
  "lower_letters = ''abcdefghijklmnopqrstuvwxyz''"

definition lower_char :: "char \<Rightarrow> char" where
  "lower_char c = (case map_of (zip upper_letters lower_letters) c of Some d \<Rightarrow> d | None \<Rightarrow> c)"

definition upper_char :: "char \<Rightarrow> char" where
  "upper_char c = (case map_of (zip lower_letters upper_letters) c of Some d \<Rightarrow> d | None \<Rightarrow> c)"

definition lower :: "string \<Rightarrow> string" where
  "lower s = map lower_char s"

definition capitalize :: "string \<Rightarrow> string" where
  "capitalize s = (case s of [] \<Rightarrow> [] | c # cs \<Rightarrow> upper_char c # map lower_char cs)"

text \<open>Decimal rendering of an integer, as an f-string prints it.\<close>

definition digit_char :: "nat \<Rightarrow> char" where
  "digit_char d = ''0123456789'' ! d"

function str_nat :: "nat \<Rightarrow> string" where
  "str_nat n = (if n < 10 then [digit_char n] else str_nat (n div 10) @ [digit_char (n mod 10)])"
  by pat_completeness auto
termination
  by (relation "measure (\<lambda>n. n)") auto

declare str_nat.simps [simp del]

definition str_int :: "int \<Rightarrow> string" where
  "str_int i = (if i < 0 then ''-'' @ str_nat (nat (- i)) else str_nat (nat i))"

text \<open>An f-string field holding an optional string prints \<open>None\<close> for \<open>None\<close>.\<close>

definition fstr :: "string option \<Rightarrow> string" where
  "fstr v = (case v of None \<Rightarrow> ''None'' | Some s \<Rightarrow> s)"

text \<open>
  A parsed YAML document (\<open>yaml.safe_load_all\<close>).  Mappings are association lists with
  string keys, read with \<open>map_of\<close>; floats and non-string keys are left out.
\<close>

datatype yaml =
    YNull
  | YBool bool
  | YInt int
  | YStr string
  | YSeq "yaml list"
  | YMap "(string \<times> yaml) list"

fun type_name :: "yaml \<Rightarrow> string" where
  "type_name YNull = ''NoneType''"
| "type_name (YBool b) = ''bool''"
| "type_name (YInt i) = ''int''"
| "type_name (YStr s) = ''str''"
| "type_name (YSeq xs) = ''list''"
| "type_name (YMap m) = ''dict''"

section \<open>Objects of the cluster API client\<close>

text \<open>
  The typed models of the \<open>kubernetes\<close> client, with the attributes this program reads or
  sets.  An attribute that may be \<open>None\<close> is an option.  Dictionaries of labels are
  association lists; a datetime is a number of microseconds since the epoch (UTC).
\<close>

datatype v1_object_meta =
  V1ObjectMeta (meta_name: "string option") (meta_labels: "(string \<times> string) list option")
    (creation_timestamp: "int option")

datatype v1_container =
  V1Container (container_name: string) (container_image: "string option")

datatype v1_pod_spec =
  V1PodSpec (containers: "v1_container list") (node_name: "string option")

datatype v1_pod_template_spec =
  V1PodTemplateSpec (template_metadata: "v1_object_meta option")
    (template_spec: "v1_pod_spec option")

datatype v1_label_selector =
  V1LabelSelector (match_labels: "(string \<times> string) list option")

datatype v1_deployment_spec =
  V1DeploymentSpec (replicas: "int option") (selector: v1_label_selector)
    (template: v1_pod_template_spec)

datatype v1_deployment =
  V1Deployment (deployment_metadata: "v1_object_meta option")
    (deployment_spec: "v1_deployment_spec option")

datatype v1_service_port =
  V1ServicePort (port: int)

datatype v1_service_spec =
  V1ServiceSpec (service_selector: "(string \<times> string) list option")
    (ports: "v1_service_port list option") (cluster_ip: "string option")

datatype v1_service =
  V1Service (service_metadata: "v1_object_meta option") (service_spec: "v1_service_spec option")

datatype v1_pod_status =
  V1PodStatus (pod_phase: "string option") (pod_ip: "string option")

datatype v1_pod =
  V1Pod (pod_metadata: "v1_object_meta option") (pod_status: "v1_pod_status option")
    (pod_spec: "v1_pod_spec option")

datatype v1_namespace_status =
  V1NamespaceStatus (phase: "string option")

datatype v1_namespace =
  V1Namespace (namespace_metadata: "v1_object_meta option")
    (namespace_status: "v1_namespace_status option")

datatype v1_node_system_info =
  V1NodeSystemInfo (kubelet_version: "string option") (os_image: "string option")
    (container_runtime_version: "string option")

datatype v1_node_address =
  V1NodeAddress (address_type: "string option") (address: "string option")

datatype v1_node_status =
  V1NodeStatus (node_phase: "string option") (node_info: "v1_node_system_info option")
    (addresses: "v1_node_address list option")

datatype v1_node =
  V1Node (node_metadata: "v1_object_meta option") (node_status: "v1_node_status option")

datatype version_info =
  VersionInfo (major: "string option") (minor: "string option") (platform: "string option")

datatype v1_api_resource_list =
  V1APIResourceList (resources: "string list")

section \<open>External calls and the state of the process\<close>

datatype resource = Deployment | Service | Pod

datatype body =
    Manifest yaml
  | DeploymentBody v1_deployment
  | ServiceBody v1_service

text \<open>
  Every call that leaves the program: the cluster API, the kube-config loader, the file
  system, the clock, and argparse's help printer.  \<open>CreateNamespaced r ns b\<close> is
  \<open>create_namespaced_<r>(namespace=ns, body=b)\<close>;  \<open>PatchNamespaced r n ns b\<close> is
  \<open>patch_namespaced_<r>(name=n, namespace=ns, body=b)\<close>.
\<close>

datatype call =
    LoadKubeConfig "string option"
  | ListKubeConfigContexts
  | GetApiResources
  | ListNamespacedService string
  | GetCode
  | ListNode
  | ListNamespace
  | ListNamespacedPod string
  | OpenFile string
  | CreateNamespaced resource string body
  | PatchNamespaced resource yaml string body
  | DatetimeNow
  | PrintHelp

text \<open>
  The state of the process: the two attributes of the one \<open>DescribeK8s\<close> object that matter
  (\<open>self.namespace\<close>, and whether \<open>self.apps_v1\<close> is defined), the context the client
  configuration was loaded for (\<open>None\<close>: the kube-config's own current context), the lines
  printed and the external calls issued so far, in order.  \<open>self.config\<close> is always \<open>None\<close>
  and \<open>self.v1\<close> is the client handle; neither is read as data.
\<close>

record world =
  namespace :: string
  apps_v1 :: bool
  active_context :: "string option"
  stdout :: "string list"
  calls :: "call list"

text \<open>
  The external collaborators, as oracles.  Each answers from the calls issued before
  (so a cluster that changes with the requests is covered); \<open>Inl\<close> is a raised exception.
  \<open>open_yaml\<close> is \<open>open\<close> followed by the lazy \<open>yaml.safe_load_all\<close>: the documents parsed
  and, if parsing stops with an error after them, that error.  \<open>py_repr\<close> is Python's
  rendering of a list or dict inside an f-string.
\<close>

record env =
  host :: string
  config_load_kube_config :: "call list \<Rightarrow> string option \<Rightarrow> exn option"
  config_list_kube_config_contexts :: "call list \<Rightarrow> exn + string list \<times> string option"
  v1_get_api_resources :: "call list \<Rightarrow> exn + v1_api_resource_list"
  v1_list_namespaced_service :: "call list \<Rightarrow> string \<Rightarrow> exn + v1_service list"
  version_get_code :: "call list \<Rightarrow> exn + version_info"
  v1_list_node :: "call list \<Rightarrow> exn + v1_node list"
  v1_list_namespace :: "call list \<Rightarrow> exn + v1_namespace list"
  v1_list_namespaced_pod :: "call list \<Rightarrow> string \<Rightarrow> exn + v1_pod list"
  open_yaml :: "call list \<Rightarrow> string \<Rightarrow> exn + yaml list \<times> exn option"
  api_write :: "call list \<Rightarrow> call \<Rightarrow> exn option"
  datetime_now :: "call list \<Rightarrow> int"
  help_text :: "string list"
  py_repr :: "yaml \<Rightarrow> string"

definition print :: "world \<Rightarrow> string \<Rightarrow> world" where
  "print w s = w\<lparr>stdout := stdout w @ [s]\<rparr>"

definition issue :: "world \<Rightarrow> call \<Rightarrow> world" where
  "issue w c = w\<lparr>calls := calls w @ [c]\<rparr>"

fun py_str :: "env \<Rightarrow> yaml \<Rightarrow> string" where
  "py_str env YNull = ''None''"
| "py_str env (YBool b) = (if b then ''True'' else ''False'')"
| "py_str env (YInt i) = str_int i"
| "py_str env (YStr s) = s"
| "py_str env (YSeq xs) = py_repr env (YSeq xs)"
| "py_str env (YMap m) = py_repr env (YMap m)"

section \<open>class DescribeK8s\<close>

text \<open>
  A method takes the state and returns what it returns or raises (\<open>Inl\<close>), with the state
  it leaves.
\<close>

definition init :: "env \<Rightarrow> string \<Rightarrow> world \<Rightarrow> (exn + unit) \<times> world" where
  "init env ns w =
     (let w1 = issue w (LoadKubeConfig None) in
      case config_load_kube_config env (calls w) None of
        Some e \<Rightarrow> (Inl e, w1)
      | None \<Rightarrow> (Inr (), w1\<lparr>namespace := ns, apps_v1 := False, active_context := None\<rparr>))"

definition set_namespace :: "world \<Rightarrow> string \<Rightarrow> world" where
  "set_namespace w ns = w\<lparr>namespace := ns\<rparr>"

definition get_api_resources ::
  "env \<Rightarrow> world \<Rightarrow> (exn + v1_api_resource_list option) \<times> world" where
  "get_api_resources env w =
     (let w1 = issue w GetApiResources in
      case v1_get_api_resources env (calls w) of
        Inr r \<Rightarrow> (Inr (Some r), w1)
      | Inl e \<Rightarrow>
          if is_api_exception e
          then (Inr None, print w1 (''Error getting API resources: '' @ exn_str e))
          else (Inl e, w1))"

definition get_api_server :: "env \<Rightarrow> world \<Rightarrow> (exn + string) \<times> world" where
  "get_api_server env w = (Inr (''Kubernetes control plane is running at '' @ host env), w)"

definition get_kube_dns_info :: "env \<Rightarrow> world \<Rightarrow> (exn + v1_service list option) \<times> world" where
  "get_kube_dns_info env w =
     (let w1 = issue w (ListNamespacedService (namespace w)) in
      case v1_list_namespaced_service env (calls w) (namespace w) of
        Inr r \<Rightarrow> (Inr (Some r), w1)
      | Inl e \<Rightarrow>
          if is_api_exception e
          then (Inr None, print w1 (''Error getting KubeDNS info: '' @ exn_str e))
          else (Inl e, w1))"

fun find_kube_dns :: "v1_service list \<Rightarrow> exn + string option" where
  "find_kube_dns [] = Inr None"
| "find_kube_dns (s # ss) =
     (case service_metadata s of
        None \<Rightarrow> Inl (no_attribute ''NoneType'' ''name'')
      | Some m \<Rightarrow>
          if meta_name m = Some ''kube-dns''
          then (case service_spec s of
                  None \<Rightarrow> Inl (no_attribute ''NoneType'' ''cluster_ip'')
                | Some sp \<Rightarrow> Inr (cluster_ip sp))
          else find_kube_dns ss)"

definition get_kube_dns_url :: "env \<Rightarrow> world \<Rightarrow> (exn + string option) \<times> world" where
  "get_kube_dns_url env w =
     (case get_kube_dns_info env w of
        (Inl e, w1) \<Rightarrow> (Inl e, w1)
      | (Inr None, w1) \<Rightarrow> (Inr None, w1)
      | (Inr (Some items), w1) \<Rightarrow> (find_kube_dns items, w1))"

definition print_api_versions :: "env \<Rightarrow> world \<Rightarrow> (exn + unit) \<times> world" where
  "print_api_versions env w =
     (let w1 = issue w GetCode in
      case version_get_code env (calls w) of
        Inr v \<Rightarrow>
          (Inr (),
           print (print (print (print w1 ''Kubernetes API Versions:'')
             (''Major: '' @ fstr (major v)))
             (''Minor: '' @ fstr (minor v)))
             (''Platform: '' @ fstr (platform v)))
      | Inl e \<Rightarrow>
          if is_api_exception e
          then (Inr (), print w1 (''Error getting API versions: '' @ exn_str e))
          else (Inl e, w1))"

definition print_cluster_info :: "env \<Rightarrow> world \<Rightarrow> (exn + unit) \<times> world" where
  "print_cluster_info env w =
     (case get_api_resources env w of
        (Inl e, w1) \<Rightarrow> (Inl e, w1)
      | (Inr r, w1) \<Rightarrow>
          (let w2 = (case r of
                       None \<Rightarrow> w1
                     | Some l \<Rightarrow>
                         print w1 (''API Resources: '' @ str_nat (length (resources l))))
           in (Inr (),
               print (print w2
                 (''KubeDNS is running at http://'' @ host env
                    @ ''/api/v1/namespaces/kube-system/services/kube-dns:dns/proxy''))
                 (''Kubernetes control plane is running at '' @ host env))))"

definition get_nodes :: "env \<Rightarrow> world \<Rightarrow> (exn + v1_node list option) \<times> world" where
  "get_nodes env w =
     (let w1 = issue w ListNode in
      case v1_list_node env (calls w) of
        Inr r \<Rightarrow> (Inr (Some r), w1)
      | Inl e \<Rightarrow>
          if is_api_exception e
          then (Inr None, print w1 (''Error getting nodes: '' @ exn_str e))
          else (Inl e, w1))"

definition get_all_namespaces ::
  "env \<Rightarrow> world \<Rightarrow> (exn + v1_namespace list option) \<times> world" where
  "get_all_namespaces env w =
     (let w1 = issue w ListNamespace in
      case v1_list_namespace env (calls w) of
        Inr r \<Rightarrow> (Inr (Some r), w1)
      | Inl e \<Rightarrow>
          if is_api_exception e
          then (Inr None, print w1 (''Exception when listing namespaces: '' @ exn_str e))
          else (Inl e, w1))"

subsection \<open>calculate_age\<close>

text \<open>
  \<open>now - creation_time\<close> is a \<open>timedelta\<close>, normalised by Python to days (of either sign),
  \<open>0 \<le> seconds < 86400\<close> and \<open>0 \<le> microseconds < 1000000\<close>.
\<close>

record timedelta =
  days :: int
  seconds :: int
  microseconds :: int

definition datetime_sub :: "int \<Rightarrow> int \<Rightarrow> timedelta" where
  "datetime_sub a b =
     \<lparr>days = (a - b) div 86400000000,
      seconds = ((a - b) mod 86400000000) div 1000000,
      microseconds = (a - b) mod 1000000\<rparr>"

text \<open>The \<open>if\<close>/\<open>elif\<close> chain on the age (the last eight lines of \<open>calculate_age\<close>).\<close>

definition format_age :: "timedelta \<Rightarrow> string" where
  "format_age age =
     (if days age > 0 then str_int (days age) @ ''d''
      else if seconds age \<ge> 3600 then str_int (seconds age div 3600) @ ''h''
      else if seconds age \<ge> 60 then str_int (seconds age div 60) @ ''m''
      else str_int (seconds age) @ ''s'')"

definition calculate_age :: "env \<Rightarrow> world \<Rightarrow> int option \<Rightarrow> (exn + string) \<times> world" where
  "calculate_age env w creation_time =
     (let now = datetime_now env (calls w);
          w1 = issue w DatetimeNow
      in case creation_time of
           None \<Rightarrow>
             (Inl (TypeError
                (''unsupported operand type(s) for -: '' @ sq @ ''datetime.datetime'' @ sq
                   @ '' and '' @ sq @ ''NoneType'' @ sq)), w1)
         | Some t \<Rightarrow> (Inr (format_age (datetime_sub now t)), w1))"

subsection \<open>Listings\<close>

fun print_namespaces :: "env \<Rightarrow> world \<Rightarrow> v1_namespace list \<Rightarrow> (exn + unit) \<times> world" where
  "print_namespaces env w [] = (Inr (), w)"
| "print_namespaces env w (n # ns) =
     (case namespace_metadata n of
        None \<Rightarrow> (Inl (no_attribute ''NoneType'' ''name''), w)
      | Some m \<Rightarrow>
          (let name = meta_name m;
               status = (case namespace_status n of
                           Some st \<Rightarrow> fstr (phase st)
                         | None \<Rightarrow> ''Unknown'')
           in case calculate_age env w (creation_timestamp m) of
                (Inl e, w1) \<Rightarrow> (Inl e, w1)
              | (Inr age, w1) \<Rightarrow>
                  print_namespaces env (print w1 (fstr name @ tab @ status @ tab @ age)) ns))"

definition print_namespaces_info :: "env \<Rightarrow> world \<Rightarrow> (exn + unit) \<times> world" where
  "print_namespaces_info env w =
     (case get_all_namespaces env w of
        (Inl e, w1) \<Rightarrow> (Inl e, w1)
      | (Inr namespaces, w1) \<Rightarrow>
          (let w2 = print w1 (''NAMESPACE'' @ tab @ ''STATUS'' @ tab @ ''AGE'')
           in case (case namespaces of
                      None \<Rightarrow> (Inr (), w2)
                    | Some nss \<Rightarrow> print_namespaces env w2 nss) of
                (Inl e, w3) \<Rightarrow> (Inl e, w3)
              | (Inr u, w3) \<Rightarrow> (Inr (), print w3 [])))"

fun print_pods :: "world \<Rightarrow> v1_pod list \<Rightarrow> (exn + unit) \<times> world" where
  "print_pods w [] = (Inr (), w)"
| "print_pods w (p # ps) =
     (case pod_metadata p of
        None \<Rightarrow> (Inl (no_attribute ''NoneType'' ''name''), w)
      | Some m \<Rightarrow>
     (case pod_status p of
        None \<Rightarrow> (Inl (no_attribute ''NoneType'' ''phase''), w)
      | Some st \<Rightarrow>
     (case pod_spec p of
        None \<Rightarrow> (Inl (no_attribute ''NoneType'' ''node_name''), w)
      | Some sp \<Rightarrow>
          print_pods
            (print (print (print (print (print w
               (''Name: '' @ fstr (meta_name m)))
               (''  Status: '' @ fstr (pod_phase st)))
               (''  IP: '' @ fstr (pod_ip st)))
               (''  Node: '' @ fstr (node_name sp)))
               ''---'')
            ps)))"

definition list_pods :: "env \<Rightarrow> world \<Rightarrow> (exn + unit) \<times> world" where
  "list_pods env w =
     (let w1 = issue w (ListNamespacedPod (namespace w)) in
      case v1_list_namespaced_pod env (calls w) (namespace w) of
        Inr pods \<Rightarrow>
          print_pods (print w1 (''Pods in namespace '' @ sq @ namespace w @ sq @ '':'')) pods
      | Inl e \<Rightarrow>
          if is_api_exception e
          then (Inr (),
                print w1 (''Exception when calling CoreV1Api->list_namespaced_pod: '' @ exn_str e))
          else (Inl e, w1))"

fun print_addresses :: "world \<Rightarrow> v1_node_address list \<Rightarrow> world" where
  "print_addresses w [] = w"
| "print_addresses w (a # as) =
     print_addresses (print w (''      '' @ fstr (address_type a) @ '': '' @ fstr (address a))) as"

definition print_node :: "world \<Rightarrow> v1_node \<Rightarrow> (exn + unit) \<times> world" where
  "print_node w n =
     (case node_metadata n of
        None \<Rightarrow> (Inl (no_attribute ''NoneType'' ''name''), w)
      | Some m \<Rightarrow>
     (let w1 = print w (''  Name: '' @ fstr (meta_name m)) in
      case node_status n of
        None \<Rightarrow> (Inl (no_attribute ''NoneType'' ''phase''), w1)
      | Some st \<Rightarrow>
     (let w2 = print w1 (''    Status: '' @ fstr (node_phase st)) in
      case node_info st of
        None \<Rightarrow> (Inl (no_attribute ''NoneType'' ''kubelet_version''), w2)
      | Some ni \<Rightarrow>
     (let w3 = print w2 (''    Kubernetes Version: '' @ fstr (kubelet_version ni));
          w4 = print w3 (''    OS Image: '' @ fstr (os_image ni));
          w5 = print w4 (''    Container Runtime: '' @ fstr (container_runtime_version ni));
          w6 = print w5 ''    Addresses:''
      in case addresses st of
           None \<Rightarrow> (Inl (TypeError (sq @ ''NoneType'' @ sq @ '' object is not iterable'')), w6)
         | Some as \<Rightarrow> (Inr (), print (print_addresses w6 as) [])))))"

fun print_nodes :: "world \<Rightarrow> v1_node list \<Rightarrow> (exn + unit) \<times> world" where
  "print_nodes w [] = (Inr (), w)"
| "print_nodes w (n # ns) =
     (case print_node w n of
        (Inl e, w1) \<Rightarrow> (Inl e, w1)
      | (Inr u, w1) \<Rightarrow> print_nodes w1 ns)"

definition print_nodes_info :: "env \<Rightarrow> world \<Rightarrow> (exn + unit) \<times> world" where
  "print_nodes_info env w =
     (case get_nodes env w of
        (Inl e, w1) \<Rightarrow> (Inl e, w1)
      | (Inr None, w1) \<Rightarrow>
          (Inr (), print w1 ''No nodes found or error occurred while fetching nodes.'')
      | (Inr (Some ns), w1) \<Rightarrow>
          if ns \<noteq> []
          then print_nodes (print w1 ''Cluster Nodes:'') ns
          else (Inr (), print w1 ''No nodes found or error occurred while fetching nodes.''))"

subsection \<open>switch_context\<close>

definition switch_context :: "env \<Rightarrow> world \<Rightarrow> string \<Rightarrow> (exn + bool) \<times> world" where
  "switch_context env w context_name =
     (let w1 = issue w ListKubeConfigContexts in
      case config_list_kube_config_contexts env (calls w) of
        Inl e \<Rightarrow> (Inr False, print w1 (''Error switching context: '' @ exn_str e))
      | Inr (contexts, active) \<Rightarrow>
          if context_name \<notin> set contexts
          then (Inr False, print w1 (''Context '' @ sq @ context_name @ sq @ '' not found.''))
          else
            (let w2 = issue w1 (LoadKubeConfig (Some context_name)) in
             case config_load_kube_config env (calls w1) (Some context_name) of
               Some e \<Rightarrow> (Inr False, print w2 (''Error switching context: '' @ exn_str e))
             | None \<Rightarrow>
                 (Inr True,
                  print (w2\<lparr>active_context := Some context_name\<rparr>)
                    (''Switched to context '' @ sq @ context_name @ sq))))"

subsection \<open>apply\<close>

text \<open>\<open>doc.get("kind", "").lower()\<close> and \<open>doc["metadata"]["name"]\<close> on a dict.\<close>

definition dict_kind :: "(string \<times> yaml) list \<Rightarrow> exn + string" where
  "dict_kind m =
     (case map_of m ''kind'' of
        None \<Rightarrow> Inr (lower [])
      | Some (YStr s) \<Rightarrow> Inr (lower s)
      | Some v \<Rightarrow> Inl (no_attribute (type_name v) ''lower''))"

definition dict_name :: "(string \<times> yaml) list \<Rightarrow> exn + yaml" where
  "dict_name m =
     (case map_of m ''metadata'' of
        None \<Rightarrow> Inl (key_error ''metadata'')
      | Some (YMap md) \<Rightarrow>
          (case map_of md ''name'' of
             None \<Rightarrow> Inl (key_error ''name'')
           | Some n \<Rightarrow> Inr n)
      | Some (YStr s) \<Rightarrow> Inl (TypeError ''string indices must be integers'')
      | Some (YSeq xs) \<Rightarrow> Inl (TypeError ''list indices must be integers or slices, not str'')
      | Some v \<Rightarrow> Inl (not_subscriptable (type_name v)))"

text \<open>
  The \<open>if\<close>/\<open>elif\<close> chain on the kind: the resource whose create and patch functions are
  taken, \<open>None\<close> for an unsupported kind.  Reading \<open>self.apps_v1\<close> raises when the attribute
  is not defined.
\<close>

definition select_api :: "world \<Rightarrow> string \<Rightarrow> exn + resource option" where
  "select_api w kind =
     (if kind = ''deployment''
      then (if apps_v1 w then Inr (Some Deployment)
            else Inl (no_attribute ''DescribeK8s'' ''apps_v1''))
      else if kind = ''service'' then Inr (Some Service)
      else if kind = ''pod'' then Inr (Some Pod)
      else Inr None)"

text \<open>The inner \<open>try\<close>: create, and patch on a 409.\<close>

definition create_or_patch ::
  "env \<Rightarrow> world \<Rightarrow> resource \<Rightarrow> string \<Rightarrow> yaml \<Rightarrow> yaml \<Rightarrow> (exn + unit) \<times> world" where
  "create_or_patch env w r kind name doc =
     (let c = CreateNamespaced r (namespace w) (Manifest doc);
          w1 = issue w c
      in case api_write env (calls w) c of
           None \<Rightarrow>
             (Inr (), print w1 (capitalize kind @ '' '' @ sq @ py_str env name @ sq @ '' created.''))
         | Some (ApiException st txt) \<Rightarrow>
             if st = 409
             then (let u = PatchNamespaced r name (namespace w) (Manifest doc);
                       w2 = issue w1 u
                   in case api_write env (calls w1) u of
                        None \<Rightarrow>
                          (Inr (),
                           print w2
                             (capitalize kind @ '' '' @ sq @ py_str env name @ sq @ '' updated.''))
                      | Some e \<Rightarrow> (Inl e, w2))
             else (Inr (),
                   print w1
                     (''Error applying '' @ kind @ '' '' @ sq @ py_str env name @ sq @ '': '' @ txt))
         | Some e \<Rightarrow> (Inl e, w1))"

definition apply_doc :: "env \<Rightarrow> world \<Rightarrow> yaml \<Rightarrow> (exn + unit) \<times> world" where
  "apply_doc env w doc =
     (case doc of
        YMap m \<Rightarrow>
          (case dict_kind m of
             Inl e \<Rightarrow> (Inl e, w)
           | Inr kind \<Rightarrow>
          (case dict_name m of
             Inl e \<Rightarrow> (Inl e, w)
           | Inr name \<Rightarrow>
          (case select_api w kind of
             Inl e \<Rightarrow> (Inl e, w)
           | Inr None \<Rightarrow> (Inr (), print w (''Unsupported resource kind: '' @ kind))
           | Inr (Some r) \<Rightarrow> create_or_patch env w r kind name doc)))
      | v \<Rightarrow> (Inl (no_attribute (type_name v) ''get''), w))"

fun apply_docs :: "env \<Rightarrow> world \<Rightarrow> yaml list \<Rightarrow> (exn + unit) \<times> world" where
  "apply_docs env w [] = (Inr (), w)"
| "apply_docs env w (doc # docs) =
     (case apply_doc env w doc of
        (Inl e, w1) \<Rightarrow> (Inl e, w1)
      | (Inr u, w1) \<Rightarrow> apply_docs env w1 docs)"

definition apply_file :: "env \<Rightarrow> world \<Rightarrow> string \<Rightarrow> (exn + unit) \<times> world" where
  "apply_file env w filename =
     (let w1 = issue w (OpenFile filename) in
      case open_yaml env (calls w) filename of
        Inl e \<Rightarrow> (Inr (), print w1 (''Error applying configuration: '' @ exn_str e))
      | Inr (docs, err) \<Rightarrow>
          (case apply_docs env w1 docs of
             (Inl e, w2) \<Rightarrow> (Inr (), print w2 (''Error applying configuration: '' @ exn_str e))
           | (Inr u, w2) \<Rightarrow>
               (case err of
                  Some e \<Rightarrow> (Inr (), print w2 (''Error applying configuration: '' @ exn_str e))
                | None \<Rightarrow> (Inr (), w2))))"

subsection \<open>create\<close>

definition deployment_body :: "string \<Rightarrow> string option \<Rightarrow> int option \<Rightarrow> v1_deployment" where
  "deployment_body name img n =
     V1Deployment
       (Some (V1ObjectMeta (Some name) None None))
       (Some (V1DeploymentSpec n
          (V1LabelSelector (Some [(''app'', name)]))
          (V1PodTemplateSpec
             (Some (V1ObjectMeta None (Some [(''app'', name)]) None))
             (Some (V1PodSpec [V1Container name img] None)))))"

definition service_body :: "string \<Rightarrow> v1_service" where
  "service_body name =
     V1Service
       (Some (V1ObjectMeta (Some name) None None))
       (Some (V1ServiceSpec (Some [(''app'', name)]) (Some [V1ServicePort 80]) None))"

text \<open>The create call inside \<open>try ... except client.ApiException\<close>.\<close>

definition create_call ::
  "env \<Rightarrow> world \<Rightarrow> call \<Rightarrow> string \<Rightarrow> string \<Rightarrow> (exn + unit) \<times> world" where
  "create_call env w c created resource_type =
     (let w1 = issue w c in
      case api_write env (calls w) c of
        None \<Rightarrow> (Inr (), print w1 created)
      | Some e \<Rightarrow>
          if is_api_exception e
          then (Inr (), print w1 (''Error creating '' @ resource_type @ '': '' @ exn_str e))
          else (Inl e, w1))"

definition create ::
  "env \<Rightarrow> world \<Rightarrow> string \<Rightarrow> string \<Rightarrow> string option \<Rightarrow> int option \<Rightarrow> (exn + unit) \<times> world"
  where
  "create env w resource_type name img n =
     (if lower resource_type = ''deployment''
      then (let body = deployment_body name img n in
            if apps_v1 w
            then create_call env w (CreateNamespaced Deployment (namespace w) (DeploymentBody body))
                   (''Deployment '' @ sq @ name @ sq @ '' created.'') resource_type
            else (Inl (no_attribute ''DescribeK8s'' ''apps_v1''), w))
      else if lower resource_type = ''service''
      then (let body = service_body name in
            create_call env w (CreateNamespaced Service (namespace w) (ServiceBody body))
              (''Service '' @ sq @ name @ sq @ '' created.'') resource_type)
      else (Inr (), print w (''Unsupported resource type: '' @ resource_type)))"

section \<open>main\<close>

text \<open>The namespace returned by \<open>parser.parse_args()\<close>.\<close>

record args =
  arg_namespace :: "string option"
  arg_cluster_info :: bool
  arg_api_versions :: bool
  arg_nodes :: bool
  arg_list_namespaces :: bool
  arg_switch_context :: "string option"
  arg_apply :: "string option"
  arg_create :: "(string \<times> string \<times> string) option"
  arg_replicas :: "int option"
  arg_list_pods :: bool

text \<open>Truth value of an optional string argument: \<open>None\<close> and the empty string are false.\<close>

definition truthy :: "string option \<Rightarrow> bool" where
  "truthy a = (case a of None \<Rightarrow> False | Some s \<Rightarrow> s \<noteq> [])"

definition print_help :: "env \<Rightarrow> world \<Rightarrow> world" where
  "print_help env w = (issue w PrintHelp)\<lparr>stdout := stdout w @ help_text env\<rparr>"

text \<open>The process before \<open>main\<close> runs: nothing printed, nothing called, no inspector yet.\<close>

definition boot :: world where
  "boot = \<lparr>namespace = [], apps_v1 = False, active_context = None, stdout = [], calls = []\<rparr>"

text \<open>The \<open>if\<close>/\<open>elif\<close> chain over the primary action flags.\<close>

definition run_action :: "env \<Rightarrow> args \<Rightarrow> world \<Rightarrow> (exn + unit) \<times> world" where
  "run_action env a w =
     (if arg_cluster_info a then print_cluster_info env w
      else if arg_api_versions a then print_api_versions env w
      else if arg_nodes a then print_nodes_info env w
      else if arg_list_namespaces a then print_namespaces_info env w
      else if truthy (arg_switch_context a)
      then (case arg_switch_context a of
              Some c \<Rightarrow> (case switch_context env w c of (r, w1) \<Rightarrow> (map_sum id (\<lambda>b. ()) r, w1))
            | None \<Rightarrow> (Inr (), w))
      else if truthy (arg_apply a)
      then (case arg_apply a of
              Some f \<Rightarrow> apply_file env w f
            | None \<Rightarrow> (Inr (), w))
      else (case arg_create a of
              Some (resource_type, name, img) \<Rightarrow>
                create env w resource_type name (Some img) (arg_replicas a)
            | None \<Rightarrow> (Inr (), w)))"

definition main :: "env \<Rightarrow> args \<Rightarrow> (exn + unit) \<times> world" where
  "main env a =
     (case init env ''default'' boot of
        (Inl e, w) \<Rightarrow> (Inl e, w)
      | (Inr u, w) \<Rightarrow>
          (let w1 = (if truthy (arg_namespace a)
                     then (case arg_namespace a of Some ns \<Rightarrow> set_namespace w ns | None \<Rightarrow> w)
                     else w)
           in case run_action env a w1 of
                (Inl e, w2) \<Rightarrow> (Inl e, w2)
              | (Inr u, w2) \<Rightarrow>
                  if arg_list_pods a then list_pods env w2
                  else (Inr (), print_help env w2)))"

section \<open>Notions of the specification\<close>

text \<open>
  The age in the specification's words: an age of \<open>s\<close> whole seconds is split into days,
  hours, minutes and seconds, and the first unit that is not zero is printed.
\<close>

definition first_nonzero_unit :: "nat \<Rightarrow> string" where
  "first_nonzero_unit s =
     (let d = s div 86400; h = (s mod 86400) div 3600; m = (s mod 3600) div 60; sec = s mod 60
      in if d \<noteq> 0 then str_nat d @ ''d''
         else if h \<noteq> 0 then str_nat h @ ''h''
         else if m \<noteq> 0 then str_nat m @ ''m''
         else str_nat sec @ ''s'')"

text \<open>The namespace an external call is directed at, for the calls that take one.\<close>

fun call_namespace :: "call \<Rightarrow> string option" where
  "call_namespace (ListNamespacedService ns) = Some ns"
| "call_namespace (ListNamespacedPod ns) = Some ns"
| "call_namespace (CreateNamespaced r ns b) = Some ns"
| "call_namespace (PatchNamespaced r n ns b) = Some ns"
| "call_namespace c = None"

definition targets :: "string \<Rightarrow> call list \<Rightarrow> bool" where
  "targets ns cs = (\<forall>c \<in> set cs. case call_namespace c of None \<Rightarrow> True | Some n \<Rightarrow> n = ns)"

text \<open>The calls a run from \<open>w\<close> to \<open>w'\<close> has added.\<close>

definition new_calls :: "world \<Rightarrow> world \<Rightarrow> call list" where
  "new_calls w w' = drop (length (calls w)) (calls w')"

text \<open>
  A run from \<open>w\<close> to \<open>w'\<close> keeps the namespace field: the field is the same, the earlier
  calls are still there, and every added call that takes a namespace is directed at the
  field's value.
\<close>

definition keeps_namespace :: "world \<Rightarrow> world \<Rightarrow> bool" where
  "keeps_namespace w w' =
     (namespace w' = namespace w
      \<and> take (length (calls w)) (calls w') = calls w
      \<and> targets (namespace w) (new_calls w w'))"

text \<open>A call that creates or patches a deployment.\<close>

fun deployment_write :: "call \<Rightarrow> bool" where
  "deployment_write (CreateNamespaced r ns b) = (r = Deployment)"
| "deployment_write (PatchNamespaced r n ns b) = (r = Deployment)"
| "deployment_write c = False"

text \<open>
  A document that is empty, or that has no \<open>metadata.name\<close> field: anything but a mapping
  whose \<open>metadata\<close> is a mapping with a \<open>name\<close> key.
\<close>

definition lacks_metadata_name :: "yaml \<Rightarrow> bool" where
  "lacks_metadata_name doc =
     (case doc of
        YMap m \<Rightarrow>
          (case map_of m ''metadata'' of
             Some (YMap md) \<Rightarrow> map_of md ''name'' = None
           | Some v \<Rightarrow> True
           | None \<Rightarrow> True)
      | v \<Rightarrow> True)"

text \<open>
  The status column of the namespace listing: \<open>Unknown\<close> when the namespace has no status
  object, else the phase of its status as an f-string prints it.
\<close>

definition status_column :: "v1_namespace \<Rightarrow> string" where
  "status_column n =
     (case namespace_status n of None \<Rightarrow> ''Unknown'' | Some st \<Rightarrow> fstr (phase st))"

text \<open>
  The rows of the namespace listing, for namespaces that carry metadata and a creation
  timestamp: name, status column and age, the age of each row against the clock as read
  after the calls \<open>h\<close> issued so far (each row reads the clock once).
\<close>

definition has_timestamp :: "v1_namespace \<Rightarrow> bool" where
  "has_timestamp n =
     (case namespace_metadata n of None \<Rightarrow> False | Some m \<Rightarrow> creation_timestamp m \<noteq> None)"

definition namespace_row :: "env \<Rightarrow> call list \<Rightarrow> v1_namespace \<Rightarrow> string" where
  "namespace_row env h n =
     (case namespace_metadata n of
        None \<Rightarrow> []
      | Some m \<Rightarrow>
          (case creation_timestamp m of
             None \<Rightarrow> []
           | Some t \<Rightarrow>
               fstr (meta_name m) @ tab @ status_column n @ tab
                 @ format_age (datetime_sub (datetime_now env h) t)))"

fun namespace_rows :: "env \<Rightarrow> call list \<Rightarrow> v1_namespace list \<Rightarrow> string list" where
  "namespace_rows env h [] = []"
| "namespace_rows env h (n # ns) = namespace_row env h n # namespace_rows env (h @ [DatetimeNow]) ns"

text \<open>
  What every method but \<open>set_namespace\<close> leaves in place, for the proofs: the namespace
  field and the \<open>apps_v1\<close> attribute are as before, and every call added is directed at
  the namespace field and writes a deployment only if \<open>apps_v1\<close> is defined.
\<close>

definition ok_call :: "world \<Rightarrow> call \<Rightarrow> bool" where
  "ok_call w c =
     ((\<forall>n. call_namespace c = Some n \<longrightarrow> n = namespace w)
      \<and> (deployment_write c \<longrightarrow> apps_v1 w))"

definition frame :: "world \<Rightarrow> world \<Rightarrow> bool" where
  "frame w w' =
     (namespace w' = namespace w \<and> apps_v1 w' = apps_v1 w
      \<and> (\<exists>cs. calls w' = calls w @ cs \<and> (\<forall>c \<in> set cs. ok_call w c)))"

section \<open>A simulated cluster\<close>

text \<open>
  One concrete environment, to run the model on concrete inputs: three kube-config
  contexts, of which \<open>broken\<close> cannot be loaded; three namespaces (one without a status
  object, one whose status has no phase); three manifest files; a cluster that answers a
  create with 409 when the same create was issued before.
\<close>

definition service_doc :: yaml where
  "service_doc = YMap [(''kind'', YStr ''Service''), (''metadata'', YMap [(''name'', YStr ''web'')])]"

definition deployment_doc :: yaml where
  "deployment_doc =
     YMap [(''kind'', YStr ''Deployment''), (''metadata'', YMap [(''name'', YStr ''web'')])]"

definition pod_doc :: yaml where
  "pod_doc = YMap [(''kind'', YStr ''Pod''), (''metadata'', YMap [(''name'', YStr ''job'')])]"

definition sim_namespaces :: "v1_namespace list" where
  "sim_namespaces =
     [V1Namespace (Some (V1ObjectMeta (Some ''kube-system'') None (Some 1699827200000000)))
        (Some (V1NamespaceStatus (Some ''Active''))),
      V1Namespace (Some (V1ObjectMeta (Some ''default'') None (Some 1699996300000000))) None,
      V1Namespace (Some (V1ObjectMeta (Some ''staging'') None (Some 1699999910000000)))
        (Some (V1NamespaceStatus None))]"

definition sim_env :: env where
  "sim_env =
     \<lparr>host = ''https://10.0.0.1:6443'',
      config_load_kube_config =
        (\<lambda>h c. if c = Some ''broken'' then Some (OtherException ''Invalid kube-config file'')
               else None),
      config_list_kube_config_contexts = (\<lambda>h. Inr ([''dev'', ''prod'', ''broken''], Some ''dev'')),
      v1_get_api_resources = (\<lambda>h. Inr (V1APIResourceList [''pods'', ''services''])),
      v1_list_namespaced_service = (\<lambda>h ns. Inr []),
      version_get_code = (\<lambda>h. Inr (VersionInfo (Some ''1'') (Some ''29'') (Some ''linux/amd64''))),
      v1_list_node = (\<lambda>h. Inr []),
      v1_list_namespace = (\<lambda>h. Inr sim_namespaces),
      v1_list_namespaced_pod = (\<lambda>h ns. Inr []),
      open_yaml =
        (\<lambda>h f. if f = ''services.yaml'' then Inr ([service_doc, service_doc], None)
               else if f = ''deploy.yaml'' then Inr ([deployment_doc], None)
               else if f = ''partial.yaml'' then Inr ([service_doc, YNull, pod_doc], None)
               else Inl (OtherException ''No such file or directory'')),
      api_write =
        (\<lambda>h c. case c of
                  CreateNamespaced r ns b \<Rightarrow>
                    if c \<in> set h then Some (ApiException 409 ''Conflict'') else None
                | PatchNamespaced r n ns b \<Rightarrow> None
                | other \<Rightarrow> None),
      datetime_now = (\<lambda>h. 1700000000000000),
      help_text = [''usage: nautilus.py [-h]''],
      py_repr = (\<lambda>v. ''[...]'')\<rparr>"

definition no_args :: args where
  "no_args =
     \<lparr>arg_namespace = None, arg_cluster_info = False, arg_api_versions = False,
      arg_nodes = False, arg_list_namespaces = False, arg_switch_context = None,
      arg_apply = None, arg_create = None, arg_replicas = None, arg_list_pods = False\<rparr>"

text \<open>The inspector as \<open>main\<close> constructs it in the simulated cluster.\<close>

definition sim_world :: world where
  "sim_world = snd (init sim_env ''default'' boot)"


section \<open>The age of a resource\<close>

lemma str_int_of_nat: "str_int (int n) = str_nat n"
  by (simp add: str_int_def)

lemma datetime_sub_nat:
  "datetime_sub now (now - int us) =
     \<lparr>days = int ((us div 1000000) div 86400),
      seconds = int ((us div 1000000) mod 86400),
      microseconds = int (us mod 1000000)\<rparr>"
proof -
  have d: "us div 86400000000 = (us div 1000000) div 86400"
    by (simp add: div_mult2_eq)
  have "us mod (1000000 * 86400) = 1000000 * (us div 1000000 mod 86400) + us mod 1000000"
    by (rule mod_mult2_eq)
  then have s: "(us mod 86400000000) div 1000000 = (us div 1000000) mod 86400"
    by simp
  have d': "int us div 86400000000 = int (us div 86400000000)"
    by (simp add: zdiv_int)
  have s': "(int us mod 86400000000) div 1000000 = int ((us mod 86400000000) div 1000000)"
    by (simp add: zdiv_int zmod_int)
  have u': "int us mod 1000000 = int (us mod 1000000)"
    by (simp add: zmod_int)
  have "now - (now - int us) = int us" by simp
  then show ?thesis
    unfolding datetime_sub_def by (simp only: d' s' u' d s)
qed

lemma format_age_nat:
  "format_age (datetime_sub now (now - int us)) = first_nonzero_unit (us div 1000000)"
proof -
  define s where "s = us div 1000000"
  have h: "s div 86400 = 0 \<Longrightarrow> s mod 86400 = s" by auto
  have m: "s div 3600 = 0 \<Longrightarrow> s mod 3600 = s" by auto
  have m2: "s div 60 = 0 \<Longrightarrow> s mod 60 = s" by auto
  have c1: "(3600 \<le> int n) = (n div 3600 \<noteq> 0)" for n :: nat by auto
  have c2: "(60 \<le> int n) = (n div 60 \<noteq> 0)" for n :: nat by auto
  have i1: "int n div 3600 = int (n div 3600)" for n :: nat by (simp add: zdiv_int)
  have i2: "int n div 60 = int (n div 60)" for n :: nat by (simp add: zdiv_int)
  show ?thesis
    by (simp add: format_age_def Let_def datetime_sub_nat first_nonzero_unit_def s_def[symmetric]
          c1 c2 i1 i2 str_int_of_nat h m m2 div_greater_zero_iff)
qed

text \<open>
  C2.  \<open>calculate_age\<close> buckets an age into days, hours, minutes and seconds, the first
  unit that is not zero winning in that order: whatever the clock reads, a creation
  timestamp \<open>us\<close> microseconds before it gives \<open>first_nonzero_unit\<close> of the whole seconds
  elapsed; a timestamp exactly 90 seconds old gives \<open>1m\<close>, exactly 3700 seconds \<open>1h\<close>,
  exactly two days \<open>2d\<close>, and 30 seconds \<open>30s\<close>.
\<close>

theorem calculate_age_buckets:
  "fst (calculate_age env w (Some (datetime_now env (calls w) - int us)))
     = Inr (first_nonzero_unit (us div 1000000))
   \<and> fst (calculate_age env w (Some (datetime_now env (calls w) - 90 * 1000000))) = Inr ''1m''
   \<and> fst (calculate_age env w (Some (datetime_now env (calls w) - 3700 * 1000000))) = Inr ''1h''
   \<and> fst (calculate_age env w (Some (datetime_now env (calls w) - 2 * 86400 * 1000000)))
       = Inr ''2d''
   \<and> fst (calculate_age env w (Some (datetime_now env (calls w) - 30 * 1000000))) = Inr ''30s''"
proof -
  have general: "fst (calculate_age env w (Some (datetime_now env (calls w) - int us)))
      = Inr (first_nonzero_unit (us div 1000000))"
    by (simp add: calculate_age_def Let_def format_age_nat)
  have examples:
    "fst (calculate_age env w (Some (datetime_now env (calls w) - 90 * 1000000))) = Inr ''1m''"
    "fst (calculate_age env w (Some (datetime_now env (calls w) - 3700 * 1000000))) = Inr ''1h''"
    "fst (calculate_age env w (Some (datetime_now env (calls w) - 2 * 86400 * 1000000)))
       = Inr ''2d''"
    "fst (calculate_age env w (Some (datetime_now env (calls w) - 30 * 1000000))) = Inr ''30s''"
    by (simp_all add: calculate_age_def format_age_def datetime_sub_def Let_def str_int_def
          str_nat.simps digit_char_def)
  from general examples show ?thesis by simp
qed

theorem calculate_age_buckets_witness:
  "fst (calculate_age sim_env sim_world (Some (1700000000000000 - 90 * 1000000))) = Inr ''1m''
   \<and> first_nonzero_unit 3700 = ''1h''"
proof -
  have now: "datetime_now sim_env (calls sim_world) = 1700000000000000"
    by (simp add: sim_env_def)
  have "first_nonzero_unit 3700 = ''1h''"
    by (simp add: first_nonzero_unit_def str_nat.simps digit_char_def)
  with calculate_age_buckets [of sim_env sim_world 0] now show ?thesis
    by simp
qed

section \<open>What the methods leave in place\<close>

lemma print_sel [simp]:
  "namespace (print w s) = namespace w"
  "apps_v1 (print w s) = apps_v1 w"
  "active_context (print w s) = active_context w"
  "calls (print w s) = calls w"
  "stdout (print w s) = stdout w @ [s]"
  by (simp_all add: print_def)

lemma issue_sel [simp]:
  "namespace (issue w c) = namespace w"
  "apps_v1 (issue w c) = apps_v1 w"
  "active_context (issue w c) = active_context w"
  "calls (issue w c) = calls w @ [c]"
  "stdout (issue w c) = stdout w"
  by (simp_all add: issue_def)

lemma frame_refl [simp]: "frame w w"
  by (simp add: frame_def)

lemma frame_trans:
  assumes "frame w w1" and "frame w1 w2"
  shows "frame w w2"
proof -
  from assms(1) obtain cs where 1: "namespace w1 = namespace w" "apps_v1 w1 = apps_v1 w"
    "calls w1 = calls w @ cs" "\<forall>c \<in> set cs. ok_call w c"
    by (auto simp: frame_def)
  from assms(2) obtain ds where 2: "namespace w2 = namespace w1" "apps_v1 w2 = apps_v1 w1"
    "calls w2 = calls w1 @ ds" "\<forall>c \<in> set ds. ok_call w1 c"
    by (auto simp: frame_def)
  have "\<forall>c \<in> set ds. ok_call w c"
    using 1(1,2) 2(4) by (simp add: ok_call_def)
  with 1 2 have "calls w2 = calls w @ (cs @ ds) \<and> (\<forall>c \<in> set (cs @ ds). ok_call w c)"
    by auto
  then have "\<exists>es. calls w2 = calls w @ es \<and> (\<forall>c \<in> set es. ok_call w c)"
    by blast
  with 1(1,2) 2(1,2) show ?thesis
    by (simp add: frame_def)
qed

lemma frame_print [simp]: "frame w (print w' s) = frame w w'"
  by (simp add: frame_def)

lemma frame_active [simp]: "frame w (w'\<lparr>active_context := x\<rparr>) = frame w w'"
  by (simp add: frame_def)

lemma frame_stdout [simp]: "frame w (w'\<lparr>stdout := x\<rparr>) = frame w w'"
  by (simp add: frame_def)

lemma frame_print_left [simp]: "frame (print w s) w' = frame w w'"
  by (simp add: frame_def ok_call_def)

lemma frame_issue: "frame w w' \<Longrightarrow> ok_call w c \<Longrightarrow> frame w (issue w' c)"
  by (fastforce simp: frame_def)

lemma frame_issue1 [simp]: "ok_call w c \<Longrightarrow> frame w (issue w c)"
  by (simp add: frame_issue)

lemma ok_call_simps [simp]:
  "ok_call w (LoadKubeConfig x)"
  "ok_call w ListKubeConfigContexts"
  "ok_call w GetApiResources"
  "ok_call w (ListNamespacedService (namespace w))"
  "ok_call w GetCode"
  "ok_call w ListNode"
  "ok_call w ListNamespace"
  "ok_call w (ListNamespacedPod (namespace w))"
  "ok_call w (OpenFile f)"
  "ok_call w DatetimeNow"
  "ok_call w PrintHelp"
  "ok_call w (CreateNamespaced r (namespace w) b) = (r = Deployment \<longrightarrow> apps_v1 w)"
  "ok_call w (PatchNamespaced r n (namespace w) b) = (r = Deployment \<longrightarrow> apps_v1 w)"
  by (simp_all add: ok_call_def)

lemma frame_issue_left: "frame (issue w c) w' \<Longrightarrow> ok_call w c \<Longrightarrow> frame w w'"
  by (rule frame_trans[of w "issue w c" w']) simp_all

lemma ok_call_frame: "frame w w' \<Longrightarrow> ok_call w' c = ok_call w c"
  by (auto simp: frame_def ok_call_def)

lemma init_frame: "init env ns w = (Inr u, w') \<Longrightarrow> namespace w' = ns \<and> \<not> apps_v1 w'"
  by (auto simp: init_def Let_def split: option.splits)

lemma get_api_resources_frame: "get_api_resources env w = (r, w') \<Longrightarrow> frame w w'"
  by (auto simp: get_api_resources_def Let_def split: sum.splits if_splits)

lemma get_api_server_frame: "get_api_server env w = (r, w') \<Longrightarrow> frame w w'"
  by (auto simp: get_api_server_def)

lemma get_kube_dns_info_frame: "get_kube_dns_info env w = (r, w') \<Longrightarrow> frame w w'"
  by (auto simp: get_kube_dns_info_def Let_def split: sum.splits if_splits)

lemma get_kube_dns_url_frame: "get_kube_dns_url env w = (r, w') \<Longrightarrow> frame w w'"
  by (auto simp: get_kube_dns_url_def split: prod.splits sum.splits option.splits
      dest: get_kube_dns_info_frame)

lemma print_api_versions_frame: "print_api_versions env w = (r, w') \<Longrightarrow> frame w w'"
  by (auto simp: print_api_versions_def Let_def split: sum.splits if_splits)

lemma print_cluster_info_frame: "print_cluster_info env w = (r, w') \<Longrightarrow> frame w w'"
  by (auto simp: print_cluster_info_def Let_def split: prod.splits sum.splits option.splits
      dest: get_api_resources_frame)

lemma get_nodes_frame: "get_nodes env w = (r, w') \<Longrightarrow> frame w w'"
  by (auto simp: get_nodes_def Let_def split: sum.splits if_splits)

lemma get_all_namespaces_frame: "get_all_namespaces env w = (r, w') \<Longrightarrow> frame w w'"
  by (auto simp: get_all_namespaces_def Let_def split: sum.splits if_splits)

lemma calculate_age_frame: "calculate_age env w t = (r, w') \<Longrightarrow> frame w w'"
  by (auto simp: calculate_age_def Let_def split: option.splits)

lemma print_namespaces_frame: "print_namespaces env w nss = (r, w') \<Longrightarrow> frame w w'"
proof (induction nss arbitrary: w)
  case Nil
  then show ?case by simp
next
  case (Cons n nss)
  show ?case
  proof (cases "namespace_metadata n")
    case None
    with Cons.prems show ?thesis by simp
  next
    case (Some m)
    obtain ra w1 where ca: "calculate_age env w (creation_timestamp m) = (ra, w1)"
      by (cases "calculate_age env w (creation_timestamp m)")
    then have f1: "frame w w1" by (rule calculate_age_frame)
    show ?thesis
    proof (cases ra)
      case (Inl e)
      with Cons.prems Some ca f1 show ?thesis by (simp add: Let_def)
    next
      case (Inr age)
      with Cons.prems Some ca obtain s where
        "print_namespaces env (print w1 s) nss = (r, w')"
        by (simp add: Let_def)
      then have "frame (print w1 s) w'" by (rule Cons.IH)
      moreover have "frame w (print w1 s)" using f1 by simp
      ultimately show ?thesis by (rule frame_trans[rotated])
    qed
  qed
qed

lemma print_namespaces_info_frame: "print_namespaces_info env w = (r, w') \<Longrightarrow> frame w w'"
  by (auto simp: print_namespaces_info_def Let_def split: prod.splits sum.splits option.splits
      dest!: get_all_namespaces_frame print_namespaces_frame elim: frame_trans)


lemma print_pods_frame: "print_pods w ps = (r, w') \<Longrightarrow> frame w w'"
proof (induction ps arbitrary: w)
  case Nil
  then show ?case by simp
next
  case (Cons p ps)
  then show ?case
    by (auto split: option.splits dest!: Cons.IH)
qed

lemma list_pods_frame: "list_pods env w = (r, w') \<Longrightarrow> frame w w'"
  by (auto simp: list_pods_def Let_def split: sum.splits if_splits
      dest!: print_pods_frame frame_issue_left)

lemma print_addresses_frame: "frame w (print_addresses w as)"
proof (induction as arbitrary: w)
  case Nil
  then show ?case by simp
next
  case (Cons a as)
  have "frame (print w (''      '' @ fstr (address_type a) @ '': '' @ fstr (address a)))
          (print_addresses (print w (''      '' @ fstr (address_type a) @ '': '' @ fstr (address a))) as)"
    by (rule Cons.IH)
  then show ?case by simp
qed

lemma print_node_frame: "print_node w n = (r, w') \<Longrightarrow> frame w w'"
proof -
  have a: "frame w (print_addresses (print x s) as) = frame w (print_addresses x as)"
    if "frame w x" for x s as
  proof -
    have "frame (print x s) (print_addresses (print x s) as)" by (rule print_addresses_frame)
    then have 1: "frame x (print_addresses (print x s) as)" by simp
    have 2: "frame x (print_addresses x as)" by (rule print_addresses_frame)
    from that 1 2 show ?thesis by (auto intro: frame_trans)
  qed
  assume "print_node w n = (r, w')"
  then show ?thesis
    by (auto simp: print_node_def Let_def a print_addresses_frame
        split: option.splits)
qed

lemma print_nodes_frame: "print_nodes w ns = (r, w') \<Longrightarrow> frame w w'"
proof (induction ns arbitrary: w)
  case Nil
  then show ?case by simp
next
  case (Cons n ns)
  then show ?case
    by (auto split: prod.splits sum.splits dest!: print_node_frame Cons.IH elim: frame_trans)
qed

lemma print_nodes_info_frame: "print_nodes_info env w = (r, w') \<Longrightarrow> frame w w'"
  by (auto simp: print_nodes_info_def split: prod.splits sum.splits option.splits if_splits
      dest!: get_nodes_frame print_nodes_frame elim: frame_trans)

lemma switch_context_frame: "switch_context env w c = (r, w') \<Longrightarrow> frame w w'"
  by (auto simp: switch_context_def Let_def split: sum.splits option.splits if_splits
      intro!: frame_issue)

lemma switch_context_returns: "\<exists>b. fst (switch_context env w c) = Inr b"
  by (auto simp: switch_context_def Let_def split: sum.splits option.splits if_splits)

lemma select_api_ok: "select_api w kind = Inr (Some r) \<Longrightarrow> r = Deployment \<longrightarrow> apps_v1 w"
  by (auto simp: select_api_def split: if_splits)

lemma create_or_patch_frame:
  "create_or_patch env w r kind name doc = (res, w') \<Longrightarrow> (r = Deployment \<longrightarrow> apps_v1 w)
     \<Longrightarrow> frame w w'"
  by (auto simp: create_or_patch_def Let_def split: option.splits exn.splits if_splits
      intro!: frame_issue)

lemma apply_doc_frame: "apply_doc env w doc = (r, w') \<Longrightarrow> frame w w'"
  by (auto simp: apply_doc_def split: yaml.splits sum.splits option.splits
      dest: select_api_ok create_or_patch_frame)

lemma apply_docs_frame: "apply_docs env w docs = (r, w') \<Longrightarrow> frame w w'"
proof (induction docs arbitrary: w)
  case Nil
  then show ?case by simp
next
  case (Cons d ds)
  then show ?case
    by (auto split: prod.splits sum.splits dest!: apply_doc_frame Cons.IH elim: frame_trans)
qed

lemma apply_file_frame: "apply_file env w f = (r, w') \<Longrightarrow> frame w w'"
  by (auto simp: apply_file_def Let_def split: prod.splits sum.splits option.splits
      dest!: apply_docs_frame frame_issue_left)

lemma apply_file_returns: "fst (apply_file env w f) = Inr ()"
  by (auto simp: apply_file_def Let_def split: prod.splits sum.splits option.splits)

lemma create_call_frame:
  "create_call env w c msg rt = (r, w') \<Longrightarrow> ok_call w c \<Longrightarrow> frame w w'"
  by (auto simp: create_call_def Let_def split: option.splits if_splits)

lemma create_frame: "create env w rt name img n = (r, w') \<Longrightarrow> frame w w'"
  by (auto simp: create_def Let_def split: if_splits dest!: create_call_frame)

lemma run_action_frame: "run_action env a w = (r, w') \<Longrightarrow> frame w w'"
  by (auto simp: run_action_def split: if_splits option.splits prod.splits
      dest: print_cluster_info_frame print_api_versions_frame print_nodes_info_frame
        print_namespaces_info_frame switch_context_frame apply_file_frame create_frame)

lemma targets_iff: "targets ns cs = (\<forall>c \<in> set cs. \<forall>n. call_namespace c = Some n \<longrightarrow> n = ns)"
  by (auto simp: targets_def split: option.splits)

lemma frame_keeps: "frame w w' \<Longrightarrow> keeps_namespace w w'"
  by (auto simp: frame_def keeps_namespace_def new_calls_def targets_iff ok_call_def)



lemma print_help_frame [simp]: "frame w (print_help env w)"
  by (simp add: print_help_def)

lemma snd_frame: "(\<And>r w'. f = (r, w') \<Longrightarrow> frame w w') \<Longrightarrow> frame w (snd f)"
  by (cases f) simp

lemma main_frame:
  assumes "init env ''default'' boot = (Inr u, w)"
  shows "frame (case arg_namespace a of None \<Rightarrow> w | Some ns \<Rightarrow> if ns = [] then w else set_namespace w ns)
           (snd (main env a))"
proof -
  define w1 where "w1 = (case arg_namespace a of None \<Rightarrow> w | Some ns \<Rightarrow> if ns = [] then w else set_namespace w ns)"
  have w1: "(if truthy (arg_namespace a)
             then (case arg_namespace a of Some ns \<Rightarrow> set_namespace w ns | None \<Rightarrow> w)
             else w) = w1"
    by (simp add: w1_def truthy_def split: option.splits)
  obtain r w2 where ra: "run_action env a w1 = (r, w2)"
    by (cases "run_action env a w1")
  then have f12: "frame w1 w2" by (rule run_action_frame)
  have "frame w1 (snd (main env a))"
  proof (cases r)
    case (Inl e)
    with assms w1 ra f12 show ?thesis by (simp add: main_def)
  next
    case (Inr v)
    show ?thesis
    proof (cases "arg_list_pods a")
      case True
      have "frame w2 (snd (list_pods env w2))" by (rule snd_frame) (rule list_pods_frame)
      with f12 have "frame w1 (snd (list_pods env w2))" by (rule frame_trans)
      with assms w1 ra Inr True show ?thesis by (simp add: main_def)
    next
      case False
      have "frame w2 (print_help env w2)" by simp
      with f12 have "frame w1 (print_help env w2)" by (rule frame_trans)
      with assms w1 ra Inr False show ?thesis by (simp add: main_def)
    qed
  qed
  then show ?thesis by (simp add: w1_def)
qed

lemma init_world:
  "init env ns w0 = (Inr u, w) \<Longrightarrow>
     w = (issue w0 (LoadKubeConfig None))\<lparr>namespace := ns, apps_v1 := False, active_context := None\<rparr>"
  by (auto simp: init_def Let_def split: option.splits)

lemma main_calls:
  assumes "init env ''default'' boot = (Inr u, w)"
  shows "namespace (snd (main env a))
           = (case arg_namespace a of None \<Rightarrow> ''default'' | Some ns \<Rightarrow> if ns = [] then ''default'' else ns)
         \<and> \<not> apps_v1 (snd (main env a))
         \<and> (\<exists>cs. calls (snd (main env a)) = LoadKubeConfig None # cs
               \<and> (\<forall>c \<in> set cs. ok_call (snd (main env a)) c))"
proof -
  define w1 where "w1 = (case arg_namespace a of None \<Rightarrow> w | Some ns \<Rightarrow> if ns = [] then w else set_namespace w ns)"
  have f: "frame w1 (snd (main env a))"
    unfolding w1_def using assms by (rule main_frame)
  have w: "w = (issue boot (LoadKubeConfig None))\<lparr>namespace := ''default'', apps_v1 := False, active_context := None\<rparr>"
    using assms by (rule init_world)
  have c1: "calls w1 = [LoadKubeConfig None]" and a1: "\<not> apps_v1 w1"
    and n1: "namespace w1 = (case arg_namespace a of None \<Rightarrow> ''default'' | Some ns \<Rightarrow> if ns = [] then ''default'' else ns)"
    by (simp_all add: w1_def w set_namespace_def boot_def split: option.splits)
  from f obtain cs where cs: "calls (snd (main env a)) = calls w1 @ cs" "\<forall>c \<in> set cs. ok_call w1 c"
    and eq: "namespace (snd (main env a)) = namespace w1" "apps_v1 (snd (main env a)) = apps_v1 w1"
    by (auto simp: frame_def)
  have "\<forall>c \<in> set cs. ok_call (snd (main env a)) c"
    using cs(2) ok_call_frame[OF f] by simp
  with cs(1) c1 eq a1 n1 show ?thesis by simp
qed


section \<open>The namespace field\<close>

text \<open>
  C10 (amended).  \<open>main\<close> constructs the inspector with the namespace field \<open>default\<close>; the
  field is overwritten with the \<open>--namespace\<close> argument exactly when that argument is
  supplied and is not the empty string; no operation other than \<open>set_namespace\<close> changes
  it (\<open>switch_context\<close>, \<open>apply\<close>, \<open>create\<close> and every get, list and print operation leave
  it as it is); and every external call that takes a namespace (list services, list pods,
  the creates and patches of \<open>apply\<close> and \<open>create\<close>) is directed at exactly the field's
  value.
\<close>

theorem namespace_field:
  "(fst (init env ''default'' boot) = Inr () \<longrightarrow>
      namespace (snd (init env ''default'' boot)) = ''default''
      \<and> namespace (snd (main env a))
          = (case arg_namespace a of
               None \<Rightarrow> ''default''
             | Some ns \<Rightarrow> if ns = [] then ''default'' else ns)
      \<and> targets (namespace (snd (main env a))) (calls (snd (main env a))))
   \<and> namespace (set_namespace w ns) = ns
   \<and> keeps_namespace w (snd (get_api_resources env w))
   \<and> keeps_namespace w (snd (get_api_server env w))
   \<and> keeps_namespace w (snd (get_kube_dns_info env w))
   \<and> keeps_namespace w (snd (get_kube_dns_url env w))
   \<and> keeps_namespace w (snd (print_api_versions env w))
   \<and> keeps_namespace w (snd (print_cluster_info env w))
   \<and> keeps_namespace w (snd (get_nodes env w))
   \<and> keeps_namespace w (snd (print_nodes_info env w))
   \<and> keeps_namespace w (snd (get_all_namespaces env w))
   \<and> keeps_namespace w (snd (print_namespaces_info env w))
   \<and> keeps_namespace w (snd (calculate_age env w t))
   \<and> keeps_namespace w (snd (list_pods env w))
   \<and> keeps_namespace w (snd (switch_context env w c))
   \<and> keeps_namespace w (snd (apply_file env w f))
   \<and> keeps_namespace w (snd (create env w rt name img n))"
proof -
  have m: "fst (init env ''default'' boot) = Inr () \<longrightarrow>
      namespace (snd (init env ''default'' boot)) = ''default''
      \<and> namespace (snd (main env a))
          = (case arg_namespace a of
               None \<Rightarrow> ''default''
             | Some ns \<Rightarrow> if ns = [] then ''default'' else ns)
      \<and> targets (namespace (snd (main env a))) (calls (snd (main env a)))"
  proof
    assume ok: "fst (init env ''default'' boot) = Inr ()"
    then obtain w0 where i: "init env ''default'' boot = (Inr (), w0)"
      by (cases "init env ''default'' boot") simp
    from main_calls[OF i, of a] obtain cs where
      n: "namespace (snd (main env a))
           = (case arg_namespace a of None \<Rightarrow> ''default'' | Some ns \<Rightarrow> if ns = [] then ''default'' else ns)"
      and cs: "calls (snd (main env a)) = LoadKubeConfig None # cs"
        "\<forall>c \<in> set cs. ok_call (snd (main env a)) c"
      by blast
    have "targets (namespace (snd (main env a))) (calls (snd (main env a)))"
      using cs by (auto simp: targets_iff ok_call_def)
    moreover have "namespace (snd (init env ''default'' boot)) = ''default''"
      using init_frame[OF i] i by simp
    ultimately show "namespace (snd (init env ''default'' boot)) = ''default''
      \<and> namespace (snd (main env a))
          = (case arg_namespace a of
               None \<Rightarrow> ''default''
             | Some ns \<Rightarrow> if ns = [] then ''default'' else ns)
      \<and> targets (namespace (snd (main env a))) (calls (snd (main env a)))"
      using n by simp
  qed
  have ops:
    "keeps_namespace w (snd (get_api_resources env w))"
    "keeps_namespace w (snd (get_api_server env w))"
    "keeps_namespace w (snd (get_kube_dns_info env w))"
    "keeps_namespace w (snd (get_kube_dns_url env w))"
    "keeps_namespace w (snd (print_api_versions env w))"
    "keeps_namespace w (snd (print_cluster_info env w))"
    "keeps_namespace w (snd (get_nodes env w))"
    "keeps_namespace w (snd (print_nodes_info env w))"
    "keeps_namespace w (snd (get_all_namespaces env w))"
    "keeps_namespace w (snd (print_namespaces_info env w))"
    "keeps_namespace w (snd (calculate_age env w t))"
    "keeps_namespace w (snd (list_pods env w))"
    "keeps_namespace w (snd (switch_context env w c))"
    "keeps_namespace w (snd (apply_file env w f))"
    "keeps_namespace w (snd (create env w rt name img n))"
    by (rule frame_keeps, rule snd_frame,
        erule get_api_resources_frame get_api_server_frame get_kube_dns_info_frame
          get_kube_dns_url_frame print_api_versions_frame print_cluster_info_frame
          get_nodes_frame print_nodes_info_frame get_all_namespaces_frame
          print_namespaces_info_frame calculate_age_frame list_pods_frame
          switch_context_frame apply_file_frame create_frame)+
  have s: "namespace (set_namespace w ns) = ns"
    by (simp add: set_namespace_def)
  from m s ops show ?thesis by blast
qed

theorem namespace_field_witness:
  "namespace (snd (main sim_env (no_args\<lparr>arg_namespace := Some ''kube-system'',
       arg_list_pods := True\<rparr>))) = ''kube-system''
   \<and> targets ''kube-system'' [LoadKubeConfig None, ListNamespacedPod ''kube-system'']
   \<and> calls (snd (main sim_env (no_args\<lparr>arg_namespace := Some ''kube-system'',
       arg_list_pods := True\<rparr>))) = [LoadKubeConfig None, ListNamespacedPod ''kube-system'']
   \<and> keeps_namespace sim_world (snd (list_pods sim_env sim_world))"
proof -
  define a where "a = no_args\<lparr>arg_namespace := Some ''kube-system'', arg_list_pods := True\<rparr>"
  have i: "fst (init sim_env ''default'' boot) = Inr ()"
    by (simp add: init_def sim_env_def)
  have c: "calls (snd (main sim_env a)) = [LoadKubeConfig None, ListNamespacedPod ''kube-system'']"
    by (simp add: a_def main_def init_def sim_env_def boot_def no_args_def truthy_def
        set_namespace_def run_action_def list_pods_def Let_def)
  have arg: "arg_namespace a = Some ''kube-system''"
    by (simp add: a_def)
  note t = namespace_field [of sim_env a sim_world]
  from t i arg have n: "namespace (snd (main sim_env a)) = ''kube-system''"
    by simp
  from t i have "targets (namespace (snd (main sim_env a))) (calls (snd (main sim_env a)))"
    by blast
  with n c have g: "targets ''kube-system'' [LoadKubeConfig None, ListNamespacedPod ''kube-system'']"
    by simp
  from t have k: "keeps_namespace sim_world (snd (list_pods sim_env sim_world))"
    by blast
  from n g c k show ?thesis
    unfolding a_def by blast
qed

text \<open>
  The claim as first stated fails for \<open>--namespace ""\<close>: the argument is supplied, and the
  field keeps \<open>default\<close>.
\<close>

theorem namespace_empty_argument_counterexample:
  "arg_namespace (no_args\<lparr>arg_namespace := Some []\<rparr>) = Some []
   \<and> namespace (snd (main sim_env (no_args\<lparr>arg_namespace := Some []\<rparr>))) = ''default''"
  by (simp add: main_def init_def sim_env_def boot_def no_args_def truthy_def run_action_def
      print_help_def Let_def)

section \<open>Evaluation in the simulated cluster\<close>

lemmas lower_eval = lower_def lower_char_def upper_char_def capitalize_def upper_letters_def lower_letters_def

lemma sim_world_eq:
  "sim_world = \<lparr>namespace = ''default'', apps_v1 = False, active_context = None, stdout = [],
     calls = [LoadKubeConfig None]\<rparr>"
  by (simp add: sim_world_def init_def sim_env_def boot_def issue_def)

lemmas age_eval = format_age_def datetime_sub_def str_int_def str_nat.simps digit_char_def

section \<open>The attribute apps_v1\<close>

lemma apply_docs_append:
  "apply_docs env w (xs @ ys) =
     (case apply_docs env w xs of
        (Inl e, w1) \<Rightarrow> (Inl e, w1)
      | (Inr u, w1) \<Rightarrow> apply_docs env w1 ys)"
  by (induction xs arbitrary: w) (auto split: prod.splits sum.splits)









section \<open>Documents without a name\<close>

lemma bad_document_raises:
  "lacks_metadata_name bad \<Longrightarrow> \<exists>e. \<forall>w. apply_doc env w bad = (Inl e, w)"
proof (cases bad)
  case (YMap m)
  assume l: "lacks_metadata_name bad"
  show ?thesis
  proof (cases "dict_kind m")
    case (Inl e)
    with YMap show ?thesis by (simp add: apply_doc_def)
  next
    case (Inr k)
    from l YMap obtain e where "dict_name m = Inl e"
      by (auto simp: lacks_metadata_name_def dict_name_def split: option.splits yaml.splits)
    with YMap Inr show ?thesis by (simp add: apply_doc_def)
  qed
qed (simp_all add: apply_doc_def)

text \<open>
  C9.  \<open>apply\<close> is not atomic across documents.  When the file holds a document that is
  empty or has no \<open>metadata.name\<close> field, that document raises whatever the state, and the
  whole operation ends with one \<open>Error applying configuration\<close> line: the state \<open>apply\<close>
  leaves is the state after the documents before it (their creates and patches stay
  issued) with that one line printed, so that document and the documents after it are
  not processed.  When the earlier documents ran without an abort, the line reports the
  error of that document.
\<close>

theorem apply_aborts_at_bad_document:
  assumes "lacks_metadata_name bad"
    and "open_yaml env (calls w) f = Inr (pre @ bad # post, err)"
  shows "\<exists>e. (\<forall>w'. apply_doc env w' bad = (Inl e, w'))
           \<and> apply_file env w f =
               (Inr (),
                print (snd (apply_docs env (issue w (OpenFile f)) pre))
                  (''Error applying configuration: ''
                     @ exn_str (case fst (apply_docs env (issue w (OpenFile f)) pre) of
                                  Inl e1 \<Rightarrow> e1
                                | Inr u \<Rightarrow> e)))"
proof -
  from assms(1) obtain e where e: "\<forall>w'. apply_doc env w' bad = (Inl e, w')"
    using bad_document_raises by blast
  obtain r w1 where p: "apply_docs env (issue w (OpenFile f)) pre = (r, w1)"
    by (cases "apply_docs env (issue w (OpenFile f)) pre")
  have "apply_file env w f =
               (Inr (),
                print w1 (''Error applying configuration: ''
                     @ exn_str (case r of Inl e1 \<Rightarrow> e1 | Inr u \<Rightarrow> e)))"
    using assms(2) p e
    by (cases r) (simp_all add: apply_file_def Let_def apply_docs_append)
  with e p show ?thesis by auto
qed

theorem apply_aborts_at_bad_document_witness:
  "lacks_metadata_name YNull
   \<and> open_yaml sim_env (calls sim_world) ''partial.yaml'' = Inr ([service_doc] @ YNull # [pod_doc], None)
   \<and> calls (snd (apply_file sim_env sim_world ''partial.yaml''))
       = [LoadKubeConfig None, OpenFile ''partial.yaml'',
          CreateNamespaced Service ''default'' (Manifest service_doc)]
   \<and> stdout (snd (apply_file sim_env sim_world ''partial.yaml''))
       = [''Service '' @ sq @ ''web'' @ sq @ '' created.'',
          ''Error applying configuration: '' @ sq @ ''NoneType'' @ sq
             @ '' object has no attribute '' @ sq @ ''get'' @ sq]"
proof -
  have l: "lacks_metadata_name YNull"
    by (simp add: lacks_metadata_name_def)
  have o: "open_yaml sim_env (calls sim_world) ''partial.yaml'' = Inr ([service_doc] @ YNull # [pod_doc], None)"
    by (simp add: sim_env_def)
  have pre: "apply_docs sim_env (issue sim_world (OpenFile ''partial.yaml'')) [service_doc]
      = (Inr (), print (issue (issue sim_world (OpenFile ''partial.yaml''))
                   (CreateNamespaced Service ''default'' (Manifest service_doc)))
                 (''Service '' @ sq @ ''web'' @ sq @ '' created.''))"
    by (simp add: apply_doc_def service_doc_def dict_kind_def dict_name_def select_api_def
        lower_eval create_or_patch_def Let_def sim_env_def sim_world_eq issue_def)
  have bad: "apply_doc sim_env w' YNull = (Inl (no_attribute ''NoneType'' ''get''), w')" for w'
    by (simp add: apply_doc_def)
  from apply_aborts_at_bad_document [OF l o] obtain e where
    e: "\<forall>w'. apply_doc sim_env w' YNull = (Inl e, w')"
    and a: "apply_file sim_env sim_world ''partial.yaml'' =
               (Inr (),
                print (snd (apply_docs sim_env (issue sim_world (OpenFile ''partial.yaml'')) [service_doc]))
                  (''Error applying configuration: ''
                     @ exn_str (case fst (apply_docs sim_env (issue sim_world (OpenFile ''partial.yaml'')) [service_doc]) of
                                  Inl e1 \<Rightarrow> e1
                                | Inr u \<Rightarrow> e)))"
    by blast
  from e bad have "e = no_attribute ''NoneType'' ''get''"
    by (metis Pair_inject sum.inject(1))
  with a pre l o show ?thesis
    by (simp add: sim_world_eq no_attribute_def issue_def print_def)
qed

section \<open>Switching the context\<close>

text \<open>
  C5 (amended).  With the contexts of the kube-config listed: for a context name that is
  not among them, \<open>switch_context\<close> prints a not-found line, leaves the active context and
  the inspector's state as they are, issues no reload, and returns \<open>False\<close>; for a name
  that is among them it issues the reload of the configuration for that context, and
  returns \<open>True\<close> with that context active when the reload succeeds, \<open>False\<close> with an
  error line and the active context as it was when the reload raises.
\<close>

theorem switch_context_cases:
  assumes "config_list_kube_config_contexts env (calls w) = Inr (contexts, active)"
  shows "(context_name \<notin> set contexts \<longrightarrow>
            switch_context env w context_name =
              (Inr False,
               print (issue w ListKubeConfigContexts)
                 (''Context '' @ sq @ context_name @ sq @ '' not found.''))
            \<and> active_context (snd (switch_context env w context_name)) = active_context w
            \<and> namespace (snd (switch_context env w context_name)) = namespace w
            \<and> apps_v1 (snd (switch_context env w context_name)) = apps_v1 w
            \<and> calls (snd (switch_context env w context_name)) = calls w @ [ListKubeConfigContexts])
         \<and> (context_name \<in> set contexts \<longrightarrow>
            calls (snd (switch_context env w context_name))
              = calls w @ [ListKubeConfigContexts, LoadKubeConfig (Some context_name)]
            \<and> (case config_load_kube_config env (calls w @ [ListKubeConfigContexts])
                       (Some context_name) of
                  None \<Rightarrow>
                    fst (switch_context env w context_name) = Inr True
                    \<and> active_context (snd (switch_context env w context_name)) = Some context_name
                    \<and> stdout (snd (switch_context env w context_name))
                        = stdout w @ [''Switched to context '' @ sq @ context_name @ sq]
                | Some e \<Rightarrow>
                    fst (switch_context env w context_name) = Inr False
                    \<and> active_context (snd (switch_context env w context_name)) = active_context w
                    \<and> stdout (snd (switch_context env w context_name))
                        = stdout w @ [''Error switching context: '' @ exn_str e]))"
  using assms
  by (simp add: switch_context_def Let_def split: option.splits)

theorem switch_context_cases_witness:
  "config_list_kube_config_contexts sim_env (calls sim_world) = Inr ([''dev'', ''prod'', ''broken''], Some ''dev'')
   \<and> ''qa'' \<notin> set [''dev'', ''prod'', ''broken'']
   \<and> switch_context sim_env sim_world ''qa''
       = (Inr False, print (issue sim_world ListKubeConfigContexts) (''Context '' @ sq @ ''qa'' @ sq @ '' not found.''))
   \<and> ''prod'' \<in> set [''dev'', ''prod'', ''broken'']
   \<and> fst (switch_context sim_env sim_world ''prod'') = Inr True
   \<and> active_context (snd (switch_context sim_env sim_world ''prod'')) = Some ''prod''"
proof -
  have l: "config_list_kube_config_contexts sim_env (calls sim_world) = Inr ([''dev'', ''prod'', ''broken''], Some ''dev'')"
    by (simp add: sim_env_def)
  have ok: "config_load_kube_config sim_env (calls sim_world @ [ListKubeConfigContexts]) (Some ''prod'') = None"
    by (simp add: sim_env_def)
  from switch_context_cases [OF l, of "''qa''"] switch_context_cases [OF l, of "''prod''"] l ok
  show ?thesis
    by simp
qed

text \<open>
  The claim as first stated fails for a name that is present when the reload raises: the
  context \<open>broken\<close> is listed, and \<open>switch_context\<close> returns \<open>False\<close>.
\<close>

theorem switch_context_reload_fails_counterexample:
  "config_list_kube_config_contexts sim_env (calls sim_world) = Inr ([''dev'', ''prod'', ''broken''], Some ''dev'')
   \<and> ''broken'' \<in> set [''dev'', ''prod'', ''broken'']
   \<and> fst (switch_context sim_env sim_world ''broken'') = Inr False"
  by (simp add: switch_context_def sim_env_def Let_def)

section \<open>The namespace listing\<close>

lemma print_namespaces_rows:
  "\<forall>n \<in> set nss. has_timestamp n \<Longrightarrow>
     print_namespaces env w nss =
       (Inr (), w\<lparr>stdout := stdout w @ namespace_rows env (calls w) nss,
                  calls := calls w @ replicate (length nss) DatetimeNow\<rparr>)"
proof (induction nss arbitrary: w)
  case Nil
  then show ?case by simp
next
  case (Cons n nss)
  from Cons.prems obtain m t where m: "namespace_metadata n = Some m" "creation_timestamp m = Some t"
    by (auto simp: has_timestamp_def split: option.splits)
  from Cons.prems have "\<forall>n \<in> set nss. has_timestamp n" by simp
  note ih = Cons.IH [OF this]
  show ?case
    by (simp add: m Let_def calculate_age_def ih namespace_row_def status_column_def
        print_def issue_def replicate_app_Cons_same)
qed

text \<open>
  C6 (amended).  For a listing whose namespaces carry metadata with a creation
  timestamp, \<open>print_namespaces_info\<close> prints the header line, then one line per
  namespace with its name, its status column and its computed age, then an empty line;
  the status column is \<open>Unknown\<close> for a namespace whose status object is absent, and
  otherwise the phase of its status (printed as \<open>None\<close> when the phase itself is absent).
\<close>

theorem print_namespaces_info_rows:
  assumes "v1_list_namespace env (calls w) = Inr nss"
    and "\<forall>n \<in> set nss. has_timestamp n"
  shows "fst (print_namespaces_info env w) = Inr ()
         \<and> stdout (snd (print_namespaces_info env w))
             = stdout w @ [''NAMESPACE'' @ tab @ ''STATUS'' @ tab @ ''AGE'']
                 @ namespace_rows env (calls w @ [ListNamespace]) nss @ [[]]"
  using assms
  by (simp add: print_namespaces_info_def get_all_namespaces_def Let_def print_namespaces_rows)

theorem print_namespaces_info_rows_witness:
  "v1_list_namespace sim_env (calls sim_world) = Inr sim_namespaces
   \<and> list_all has_timestamp sim_namespaces
   \<and> stdout (snd (print_namespaces_info sim_env sim_world))
       = [''NAMESPACE'' @ tab @ ''STATUS'' @ tab @ ''AGE'',
          ''kube-system'' @ tab @ ''Active'' @ tab @ ''2d'',
          ''default'' @ tab @ ''Unknown'' @ tab @ ''1h'',
          ''staging'' @ tab @ ''None'' @ tab @ ''1m'',
          []]"
proof -
  have l: "v1_list_namespace sim_env (calls sim_world) = Inr sim_namespaces"
    by (simp add: sim_env_def)
  have t: "\<forall>n \<in> set sim_namespaces. has_timestamp n"
    by (simp add: sim_namespaces_def has_timestamp_def)
  have r: "namespace_rows sim_env (calls sim_world @ [ListNamespace]) sim_namespaces
      = [''kube-system'' @ tab @ ''Active'' @ tab @ ''2d'',
          ''default'' @ tab @ ''Unknown'' @ tab @ ''1h'',
          ''staging'' @ tab @ ''None'' @ tab @ ''1m'']"
    by (simp add: sim_namespaces_def namespace_row_def status_column_def fstr_def sim_env_def
        age_eval)
  from print_namespaces_info_rows [OF l t] r l t show ?thesis
    by (simp add: sim_world_eq list_all_iff)
qed

text \<open>
  The claim as first stated fails for a namespace whose status is present and has no
  phase: its line shows \<open>None\<close>, not \<open>Unknown\<close>.
\<close>

theorem namespace_phase_absent_counterexample:
  "sim_namespaces ! 2 = V1Namespace (Some (V1ObjectMeta (Some ''staging'') None (Some 1699999910000000)))
        (Some (V1NamespaceStatus None))
   \<and> phase (V1NamespaceStatus None) = None
   \<and> stdout (snd (print_namespaces_info sim_env sim_world)) ! 3
       = ''staging'' @ tab @ ''None'' @ tab @ ''1m''"
  by (simp add: print_namespaces_info_def get_all_namespaces_def Let_def sim_env_def sim_world_eq
      sim_namespaces_def calculate_age_def age_eval fstr_def print_def issue_def)

section \<open>The paths of apply and create that work, and the errors that are caught\<close>

text \<open>
  A document that reaches the dispatch with kind service or pod: the create call is
  issued for the namespace field with the document as body; on a 409 exactly one patch
  call for the same name and namespace follows; any other outcome adds no call.
\<close>

lemma apply_doc_supported_kind:
  assumes "dict_kind m = Inr kind" and "dict_name m = Inr name"
    and "kind = ''service'' \<and> r = Service \<or> kind = ''pod'' \<and> r = Pod"
  shows "calls (snd (apply_doc env w (YMap m)))
           = calls w @
               (case api_write env (calls w) (CreateNamespaced r (namespace w) (Manifest (YMap m))) of
                  Some (ApiException st txt) \<Rightarrow>
                    if st = 409
                    then [CreateNamespaced r (namespace w) (Manifest (YMap m)),
                          PatchNamespaced r name (namespace w) (Manifest (YMap m))]
                    else [CreateNamespaced r (namespace w) (Manifest (YMap m))]
                | other \<Rightarrow> [CreateNamespaced r (namespace w) (Manifest (YMap m))])
         \<and> (api_write env (calls w) (CreateNamespaced r (namespace w) (Manifest (YMap m))) = None
              \<longrightarrow> fst (apply_doc env w (YMap m)) = Inr ()
                \<and> stdout (snd (apply_doc env w (YMap m)))
                    = stdout w @ [capitalize kind @ '' '' @ sq @ py_str env name @ sq @ '' created.''])"
proof -
  define c where "c = CreateNamespaced r (namespace w) (Manifest (YMap m))"
  from assms(3) have sel: "select_api w kind = Inr (Some r)"
    by (auto simp: select_api_def)
  have ad: "apply_doc env w (YMap m) = create_or_patch env w r kind name (YMap m)"
    by (simp add: apply_doc_def assms(1,2) sel)
  have calls: "calls (snd (create_or_patch env w r kind name (YMap m)))
           = calls w @
               (case api_write env (calls w) c of
                  Some (ApiException st txt) \<Rightarrow>
                    if st = 409
                    then [c, PatchNamespaced r name (namespace w) (Manifest (YMap m))]
                    else [c]
                | other \<Rightarrow> [c])"
    by (simp add: create_or_patch_def Let_def c_def split: option.splits exn.splits)
  have ok: "api_write env (calls w) c = None
              \<longrightarrow> fst (create_or_patch env w r kind name (YMap m)) = Inr ()
                \<and> stdout (snd (create_or_patch env w r kind name (YMap m)))
                    = stdout w @ [capitalize kind @ '' '' @ sq @ py_str env name @ sq @ '' created.'']"
    by (simp add: create_or_patch_def Let_def c_def)
  from calls ok show ?thesis
    unfolding ad c_def by simp
qed

lemma apply_doc_supported_kind_witness:
  "dict_kind [(''kind'', YStr ''Service''), (''metadata'', YMap [(''name'', YStr ''web'')])] = Inr ''service''
   \<and> dict_name [(''kind'', YStr ''Service''), (''metadata'', YMap [(''name'', YStr ''web'')])] = Inr (YStr ''web'')
   \<and> calls (snd (apply_doc sim_env sim_world service_doc))
       = [LoadKubeConfig None, CreateNamespaced Service ''default'' (Manifest service_doc)]
   \<and> stdout (snd (apply_doc sim_env sim_world service_doc))
       = [''Service '' @ sq @ ''web'' @ sq @ '' created.'']"
proof -
  define m where "m = [(''kind'', YStr ''Service''), (''metadata'', YMap [(''name'', YStr ''web'')])]"
  have k: "dict_kind m = Inr ''service''" by (simp add: m_def dict_kind_def lower_eval)
  have n: "dict_name m = Inr (YStr ''web'')" by (simp add: m_def dict_name_def)
  have d: "service_doc = YMap m" by (simp add: service_doc_def m_def)
  have a: "api_write sim_env (calls sim_world)
             (CreateNamespaced Service (namespace sim_world) (Manifest (YMap m))) = None"
    by (simp add: sim_env_def sim_world_eq)
  from apply_doc_supported_kind [OF k n, of Service sim_env sim_world] a k n
  show ?thesis
    unfolding d m_def [symmetric]
    by (simp add: sim_world_eq lower_eval)
qed

text \<open>A document of any other kind is skipped with a message, and the loop goes on.\<close>

lemma apply_doc_unsupported_kind:
  assumes "dict_kind m = Inr kind" and "dict_name m = Inr name"
    and "kind \<noteq> ''deployment''" and "kind \<noteq> ''service''" and "kind \<noteq> ''pod''"
  shows "apply_doc env w (YMap m) = (Inr (), print w (''Unsupported resource kind: '' @ kind))"
  using assms by (simp add: apply_doc_def select_api_def)

lemma apply_doc_unsupported_kind_witness:
  "apply_doc sim_env sim_world
     (YMap [(''kind'', YStr ''ConfigMap''), (''metadata'', YMap [(''name'', YStr ''cfg'')])])
   = (Inr (), print sim_world ''Unsupported resource kind: configmap'')"
proof -
  define m where "m = [(''kind'', YStr ''ConfigMap''), (''metadata'', YMap [(''name'', YStr ''cfg'')])]"
  have k: "dict_kind m = Inr ''configmap''" by (simp add: m_def dict_kind_def lower_eval)
  have n: "dict_name m = Inr (YStr ''cfg'')" by (simp add: m_def dict_name_def)
  from apply_doc_unsupported_kind [OF k n, of sim_env sim_world] show ?thesis
    unfolding m_def by simp
qed

text \<open>
  Two service documents with the same name, the second create answered with a conflict:
  two create attempts in all, and one patch for the second document.
\<close>

lemma apply_two_services:
  "apply_file sim_env sim_world ''services.yaml''
     = (Inr (),
        \<lparr>namespace = ''default'', apps_v1 = False, active_context = None,
         stdout = [''Service '' @ sq @ ''web'' @ sq @ '' created.'',
                   ''Service '' @ sq @ ''web'' @ sq @ '' updated.''],
         calls = [LoadKubeConfig None, OpenFile ''services.yaml'',
                  CreateNamespaced Service ''default'' (Manifest service_doc),
                  CreateNamespaced Service ''default'' (Manifest service_doc),
                  PatchNamespaced Service (YStr ''web'') ''default'' (Manifest service_doc)]\<rparr>)"
  by (simp add: apply_file_def sim_world_eq sim_env_def Let_def issue_def print_def
      apply_doc_def service_doc_def dict_kind_def dict_name_def select_api_def lower_eval
      create_or_patch_def)

text \<open>
  The deployment spec that \<open>create\<close> builds: the replica count given, selector and
  pod-template labels both \<open>{app: name}\<close>, one container with the name and image given.
\<close>

lemma deployment_body_fields:
  "deployment_spec (deployment_body name img n) \<noteq> None
   \<and> replicas (the (deployment_spec (deployment_body name img n))) = n
   \<and> match_labels (selector (the (deployment_spec (deployment_body name img n))))
       = Some [(''app'', name)]
   \<and> map_option meta_labels
        (template_metadata (template (the (deployment_spec (deployment_body name img n)))))
       = Some (Some [(''app'', name)])
   \<and> map_option containers
        (template_spec (template (the (deployment_spec (deployment_body name img n)))))
       = Some [V1Container name img]
   \<and> map_option meta_name (deployment_metadata (deployment_body name img n)) = Some (Some name)"
  by (simp add: deployment_body_def)

text \<open>
  \<open>create\<close> for a service builds a spec with selector \<open>{app: name}\<close> and the single port
  80 and issues the create call; any other type but deployment is reported as
  unsupported, with no call.
\<close>

lemma create_service_and_unsupported:
  "(lower rt = ''service'' \<longrightarrow>
      calls (snd (create env w rt name img n))
        = calls w @ [CreateNamespaced Service (namespace w) (ServiceBody (service_body name))]
      \<and> map_option service_selector (service_spec (service_body name)) = Some (Some [(''app'', name)])
      \<and> map_option ports (service_spec (service_body name)) = Some (Some [V1ServicePort 80])
      \<and> (api_write env (calls w)
            (CreateNamespaced Service (namespace w) (ServiceBody (service_body name))) = None
          \<longrightarrow> fst (create env w rt name img n) = Inr ()
            \<and> stdout (snd (create env w rt name img n))
                = stdout w @ [''Service '' @ sq @ name @ sq @ '' created.'']))
   \<and> (lower rt \<noteq> ''deployment'' \<and> lower rt \<noteq> ''service'' \<longrightarrow>
        create env w rt name img n = (Inr (), print w (''Unsupported resource type: '' @ rt)))"
  by (auto simp: create_def create_call_def service_body_def Let_def split: option.splits)

lemma create_service_and_unsupported_witness:
  "lower ''Service'' = ''service''
   \<and> calls (snd (create sim_env sim_world ''Service'' ''web'' (Some ''nginx'') None))
       = [LoadKubeConfig None,
          CreateNamespaced Service ''default'' (ServiceBody (service_body ''web''))]
   \<and> stdout (snd (create sim_env sim_world ''Service'' ''web'' (Some ''nginx'') None))
       = [''Service '' @ sq @ ''web'' @ sq @ '' created.'']
   \<and> create sim_env sim_world ''job'' ''web'' (Some ''nginx'') None
       = (Inr (), print sim_world ''Unsupported resource type: job'')"
proof -
  have l: "lower ''Service'' = ''service''" by (simp add: lower_eval)
  have j: "lower ''job'' \<noteq> ''deployment'' \<and> lower ''job'' \<noteq> ''service''" by (simp add: lower_eval)
  have a: "api_write sim_env (calls sim_world)
            (CreateNamespaced Service (namespace sim_world) (ServiceBody (service_body ''web''))) = None"
    by (simp add: sim_env_def sim_world_eq)
  from create_service_and_unsupported [of "''Service''" sim_env sim_world "''web''" "Some ''nginx''" None]
    create_service_and_unsupported [of "''job''" sim_env sim_world "''web''" "Some ''nginx''" None]
    l j a
  show ?thesis
    by (simp add: sim_world_eq)
qed

text \<open>\<open>list_pods\<close> on an empty namespace prints the header line and no entries.\<close>

lemma list_pods_empty:
  "v1_list_namespaced_pod env (calls w) (namespace w) = Inr [] \<Longrightarrow>
     list_pods env w
       = (Inr (),
          print (issue w (ListNamespacedPod (namespace w)))
            (''Pods in namespace '' @ sq @ namespace w @ sq @ '':''))"
  by (simp add: list_pods_def Let_def)

lemma list_pods_empty_witness:
  "v1_list_namespaced_pod sim_env (calls sim_world) (namespace sim_world) = Inr []
   \<and> stdout (snd (list_pods sim_env sim_world)) = [''Pods in namespace '' @ sq @ ''default'' @ sq @ '':'']"
proof -
  have e: "v1_list_namespaced_pod sim_env (calls sim_world) (namespace sim_world) = Inr []"
    by (simp add: sim_env_def)
  from list_pods_empty [OF e] e show ?thesis
    by (simp add: sim_world_eq)
qed

text \<open>
  An \<open>ApiException\<close> of the external call is caught where the call is made: a line
  describing it is printed and the method returns its sentinel.
\<close>

lemma api_exception_is_caught:
  assumes "is_api_exception e"
  shows "(v1_get_api_resources env (calls w) = Inl e \<longrightarrow>
            get_api_resources env w
              = (Inr None, print (issue w GetApiResources) (''Error getting API resources: '' @ exn_str e))
            \<and> fst (print_cluster_info env w) = Inr ())
         \<and> (v1_list_namespaced_service env (calls w) (namespace w) = Inl e \<longrightarrow>
            get_kube_dns_info env w
              = (Inr None, print (issue w (ListNamespacedService (namespace w)))
                   (''Error getting KubeDNS info: '' @ exn_str e))
            \<and> fst (get_kube_dns_url env w) = Inr None)
         \<and> (version_get_code env (calls w) = Inl e \<longrightarrow>
            print_api_versions env w
              = (Inr (), print (issue w GetCode) (''Error getting API versions: '' @ exn_str e)))
         \<and> (v1_list_node env (calls w) = Inl e \<longrightarrow>
            get_nodes env w
              = (Inr None, print (issue w ListNode) (''Error getting nodes: '' @ exn_str e))
            \<and> fst (print_nodes_info env w) = Inr ())
         \<and> (v1_list_namespace env (calls w) = Inl e \<longrightarrow>
            get_all_namespaces env w
              = (Inr None, print (issue w ListNamespace)
                   (''Exception when listing namespaces: '' @ exn_str e))
            \<and> fst (print_namespaces_info env w) = Inr ())
         \<and> (v1_list_namespaced_pod env (calls w) (namespace w) = Inl e \<longrightarrow>
            list_pods env w
              = (Inr (), print (issue w (ListNamespacedPod (namespace w)))
                   (''Exception when calling CoreV1Api->list_namespaced_pod: '' @ exn_str e)))
         \<and> (lower rt = ''service''
              \<and> api_write env (calls w)
                   (CreateNamespaced Service (namespace w) (ServiceBody (service_body name))) = Some e
            \<longrightarrow> create env w rt name img n
              = (Inr (),
                 print (issue w (CreateNamespaced Service (namespace w) (ServiceBody (service_body name))))
                   (''Error creating '' @ rt @ '': '' @ exn_str e)))"
  using assms
  by (simp add: get_api_resources_def print_cluster_info_def get_kube_dns_info_def
      get_kube_dns_url_def print_api_versions_def get_nodes_def print_nodes_info_def
      get_all_namespaces_def print_namespaces_info_def list_pods_def create_def create_call_def
      Let_def)

text \<open>\<open>apply\<close> and \<open>switch_context\<close> catch every exception.\<close>

lemma never_raise:
  "fst (apply_file env w f) = Inr ()
   \<and> fst (switch_context env w c) \<in> {Inr True, Inr False}"
  using switch_context_returns [of env w c] apply_file_returns [of env w f]
  by auto

section \<open>Where the code departs from the specification\<close>

lemmas run_eval = main_def init_def run_action_def truthy_def set_namespace_def print_help_def
  no_args_def boot_def sim_env_def Let_def issue_def print_def

text \<open>
  C1.  The claim is that no exception ever leaves an inspector method, \<open>create\<close> for a
  deployment included.  The code departs from it: on the inspector \<open>main\<close> constructs,
  \<open>create("deployment", "web", "nginx", 3)\<close> raises the \<open>AttributeError\<close> of the read of
  \<open>self.apps_v1\<close>, which \<open>except client.ApiException\<close> does not catch, and the exception
  leaves \<open>main\<close> as well.
\<close>

theorem create_deployment_raises:
  "fst (create sim_env sim_world ''deployment'' ''web'' (Some ''nginx'') (Some 3))
     = Inl (AttributeError
         (sq @ ''DescribeK8s'' @ sq @ '' object has no attribute '' @ sq @ ''apps_v1'' @ sq))
   \<and> fst (main sim_env (no_args\<lparr>arg_create := Some (''deployment'', ''web'', ''nginx''),
            arg_replicas := Some 3\<rparr>))
     = Inl (AttributeError
         (sq @ ''DescribeK8s'' @ sq @ '' object has no attribute '' @ sq @ ''apps_v1'' @ sq))"
  by (simp add: create_def sim_world_eq lower_eval no_attribute_def run_eval)

text \<open>
  C3.  The claim is that \<open>apply\<close> issues a create call for a document of kind deployment,
  service or pod.  The code departs from it for the kind deployment: for a file with one
  deployment document no create call is issued; the read of \<open>self.apps_v1\<close> raises, the
  outer handler prints the error, and \<open>apply\<close> ends.
\<close>

theorem apply_deployment_issues_no_create:
  "apply_file sim_env sim_world ''deploy.yaml''
     = (Inr (),
        \<lparr>namespace = ''default'', apps_v1 = False, active_context = None,
         stdout = [''Error applying configuration: '' @ sq @ ''DescribeK8s'' @ sq
                     @ '' object has no attribute '' @ sq @ ''apps_v1'' @ sq],
         calls = [LoadKubeConfig None, OpenFile ''deploy.yaml'']\<rparr>)"
  by (simp add: apply_file_def sim_world_eq sim_env_def Let_def issue_def print_def
      apply_doc_def deployment_doc_def dict_kind_def dict_name_def select_api_def lower_eval
      no_attribute_def)

text \<open>
  What holds of the dispatch: with no flag at all only the help is printed, and with
  \<open>--list-pods\<close> alone only \<open>list_pods\<close> runs.
\<close>

lemma main_no_flags:
  "init env ''default'' boot = (Inr (), w) \<Longrightarrow>
     main env no_args = (Inr (), print_help env w)
     \<and> main env (no_args\<lparr>arg_list_pods := True\<rparr>) = list_pods env w"
  by (simp add: main_def run_action_def no_args_def truthy_def)

text \<open>
  C4.  The claim is that when a primary action flag is supplied only that action's method
  runs and help is not printed as well.  The code departs from it: with \<open>--cluster-info\<close>
  alone, \<open>print_cluster_info\<close> runs and then the help is printed, since the final \<open>else\<close>
  belongs to the test of \<open>--list-pods\<close>.
\<close>

theorem main_prints_help_after_action:
  "calls (snd (main sim_env (no_args\<lparr>arg_cluster_info := True\<rparr>)))
     = [LoadKubeConfig None, GetApiResources, PrintHelp]
   \<and> stdout (snd (main sim_env (no_args\<lparr>arg_cluster_info := True\<rparr>)))
     = [''API Resources: 2'',
        ''KubeDNS is running at http://https://10.0.0.1:6443/api/v1/namespaces/kube-system/services/kube-dns:dns/proxy'',
        ''Kubernetes control plane is running at https://10.0.0.1:6443'',
        ''usage: nautilus.py [-h]'']"
  by (simp add: run_eval print_cluster_info_def get_api_resources_def str_nat.simps digit_char_def)

text \<open>
  C7.  The claim is that \<open>create\<close> for a deployment builds the deployment spec and then
  issues a create call.  The code departs from it: the spec is built (its replica count is
  the one given), and then the read of \<open>self.apps_v1\<close> raises, so no call is issued; the
  service path does issue its create call.
\<close>

theorem create_deployment_issues_no_call:
  "replicas (the (deployment_spec (deployment_body ''web'' (Some ''nginx'') (Some 3)))) = Some 3
   \<and> create sim_env sim_world ''deployment'' ''web'' (Some ''nginx'') (Some 3)
       = (Inl (no_attribute ''DescribeK8s'' ''apps_v1''), sim_world)
   \<and> calls (snd (create sim_env sim_world ''deployment'' ''web'' (Some ''nginx'') (Some 3)))
       = calls sim_world
   \<and> calls (snd (create sim_env sim_world ''service'' ''web'' (Some ''nginx'') (Some 3)))
       = calls sim_world @ [CreateNamespaced Service ''default'' (ServiceBody (service_body ''web''))]"
  by (simp add: create_def create_call_def sim_world_eq lower_eval deployment_body_def
      sim_env_def Let_def)

end
